theory Spec2Isabelle
  imports Complex_Main
begin

section \<open>Python values and errors\<close>

text \<open>
  The simulator is written in Python.  Its floats are read as real numbers: every
  statement below is about the arithmetic the formulas denote, not about IEEE rounding,
  overflow or NaN.  Integers stay integers (\<open>int\<close>), strings are \<open>string\<close>, a JSON
  object read with \<^verbatim>\<open>d[k]\<close> is a record field, one read with \<^verbatim>\<open>d.get(k, default)\<close> is an
  optional field, and a dictionary keyed by user-supplied names is a map.  Every
  \<^verbatim>\<open>raise\<close> and every operation that raises (division by zero, a missing dictionary
  key, \<^verbatim>\<open>min\<close> of an empty sequence) is a value \<open>Inl e\<close> of the result type.
\<close>

datatype py_error = ValueError | ZeroDivisionError | KeyError

definition ebind :: "py_error + 'a \<Rightarrow> ('a \<Rightarrow> py_error + 'b) \<Rightarrow> py_error + 'b" where
  "ebind m f = (case m of Inl e \<Rightarrow> Inl e | Inr x \<Rightarrow> f x)"

text \<open>Python's \<^verbatim>\<open>/\<close> on numbers: a float, or the exception when the divisor is zero.\<close>

definition true_div :: "real \<Rightarrow> real \<Rightarrow> py_error + real" where
  "true_div x y = (if y \<noteq> 0 then Inr (x / y) else Inl ZeroDivisionError)"

definition get_default :: "'a option \<Rightarrow> 'a \<Rightarrow> 'a" where
  "get_default v d = (case v of None \<Rightarrow> d | Some x \<Rightarrow> x)"

definition has_key :: "'a option \<Rightarrow> bool" where
  "has_key v = (case v of None \<Rightarrow> False | Some x \<Rightarrow> True)"

definition subscript :: "('k \<rightharpoonup> 'v) \<Rightarrow> 'k \<Rightarrow> py_error + 'v" where
  "subscript m k = (case m k of None \<Rightarrow> Inl KeyError | Some v \<Rightarrow> Inr v)"

section \<open>Circuit (modules/circuit.py)\<close>

record sector =
  number :: int
  sector_length :: real
  turns :: real
  sector_type :: "string option"
  elevation_change :: "real option"

record drs_zone =
  drs_sector :: int

record circuit_entry =
  entry_name :: string
  entry_country :: string
  entry_length :: real
  entry_sectors :: "sector list"
  entry_drs_zones :: "drs_zone list option"
  entry_lap_record :: "real option"
  entry_base_lap_time :: "real option"
  entry_difficulty :: "real option"

record circuit =
  name :: string
  full_name :: string
  country :: string
  circuit_length :: real
  sectors :: "sector list"
  drs_zones :: "drs_zone list"
  lap_record :: real
  base_lap_time :: real
  difficulty :: real

text \<open>\<^verbatim>\<open>Circuit.__init__\<close>: the table of circuits is the content of circuits.json.\<close>

definition Circuit_init :: "(string \<rightharpoonup> circuit_entry) \<Rightarrow> string \<Rightarrow> py_error + circuit" where
  "Circuit_init circuits circuit_name =
     (case circuits circuit_name of
        None \<Rightarrow> Inl ValueError
      | Some d \<Rightarrow> Inr \<lparr> name = circuit_name,
                       full_name = entry_name d,
                       country = entry_country d,
                       circuit_length = entry_length d,
                       sectors = entry_sectors d,
                       drs_zones = get_default (entry_drs_zones d) [],
                       lap_record = get_default (entry_lap_record d) 0,
                       base_lap_time = get_default (entry_base_lap_time d) 0,
                       difficulty = get_default (entry_difficulty d) 0.7 \<rparr>)"

text \<open>\<^verbatim>\<open>Circuit.create_custom_circuit\<close>: no table lookup, base lap time length / 70.\<close>

definition create_custom_circuit :: "string \<Rightarrow> real \<Rightarrow> sector list \<Rightarrow> circuit" where
  "create_custom_circuit nm len secs =
     \<lparr> name = ''custom'', full_name = nm, country = ''Custom'', circuit_length = len,
       sectors = secs, drs_zones = [], lap_record = 0, base_lap_time = len / 70,
       difficulty = 0.8 \<rparr>"

text \<open>\<^verbatim>\<open>get_sector_data\<close>: the first sector carrying the number, \<^verbatim>\<open>None\<close> when there is none.\<close>

fun find_sector :: "sector list \<Rightarrow> int \<Rightarrow> sector option" where
  "find_sector [] n = None"
| "find_sector (s # ss) n = (if number s = n then Some s else find_sector ss n)"

definition get_sector_data :: "circuit \<Rightarrow> int \<Rightarrow> sector option" where
  "get_sector_data c sector_number = find_sector (sectors c) sector_number"

definition get_total_sectors :: "circuit \<Rightarrow> nat" where
  "get_total_sectors c = length (sectors c)"

fun has_drs_zone :: "drs_zone list \<Rightarrow> int \<Rightarrow> bool" where
  "has_drs_zone [] n = False"
| "has_drs_zone (z # zs) n = (if drs_sector z = n then True else has_drs_zone zs n)"

definition has_drs_in_sector :: "circuit \<Rightarrow> int \<Rightarrow> bool" where
  "has_drs_in_sector c sector_number = has_drs_zone (drs_zones c) sector_number"

definition type_modifier :: "string \<Rightarrow> real" where
  "type_modifier t =
     (if t = ''low_speed'' then 0.2
      else if t = ''medium_speed'' then 0.1
      else if t = ''high_speed'' then - 0.1
      else 0.1)"

text \<open>
  \<^verbatim>\<open>calculate_sector_difficulty\<close>: 1.0 for a number with no sector; otherwise base 0.8, turn
  density (turns per km, the division raising on a sector of length 0) capped at 0.3, the
  type term, the elevation term, clamped to [0.5, 1.2].
\<close>

definition calculate_sector_difficulty :: "circuit \<Rightarrow> int \<Rightarrow> py_error + real" where
  "calculate_sector_difficulty c sector_number =
     (case get_sector_data c sector_number of
        None \<Rightarrow> Inr 1.0
      | Some s \<Rightarrow>
          ebind (true_div (turns s) (sector_length s / 1000)) (\<lambda>turn_density.
            let base_difficulty = 0.8;
                turn_effect = min 0.3 (turn_density * 0.1);
                type_effect = type_modifier (get_default (sector_type s) ''medium_speed'');
                elevation_effect = \<bar>get_default (elevation_change s) 0\<bar> * 0.005;
                d = base_difficulty + turn_effect + type_effect + elevation_effect
            in Inr (max 0.5 (min 1.2 d))))"

text \<open>
  \<^verbatim>\<open>get_sector_base_time\<close>: 0.0 for a number with no sector; otherwise the share of the
  base lap time by length, times the difficulty.
\<close>

definition get_sector_base_time :: "circuit \<Rightarrow> int \<Rightarrow> py_error + real" where
  "get_sector_base_time c sector_number =
     (case get_sector_data c sector_number of
        None \<Rightarrow> Inr 0.0
      | Some s \<Rightarrow>
          ebind (true_div (sector_length s) (circuit_length c)) (\<lambda>sector_ratio.
            let base_sector_time = base_lap_time c * sector_ratio in
            ebind (calculate_sector_difficulty c sector_number) (\<lambda>difficulty_modifier.
              Inr (base_sector_time * difficulty_modifier))))"

section \<open>Utility formulas (modules/utils.py)\<close>

record tire_info =
  grip_modifier :: real
  optimal_temp_range :: "real \<times> real"
  peak_performance_laps :: "real option"
  degradation_rate :: "real option"
  life_span :: real

record temp_effect =
  temp_threshold :: real
  grip_loss :: real

record tire_table =
  tire_compounds :: "string \<rightharpoonup> tire_info"
  cold :: temp_effect
  overheated :: temp_effect

record weather_info =
  weather_grip_modifier :: "real option"
  weather_speed_modifier :: "real option"
  weather_mistake_probability :: "real option"
  weather_optimal_tire :: "string list option"
  weather_name :: "string option"

record track_condition_info =
  condition_grip_modifier :: real

record weather_table =
  weather_conditions :: "string \<rightharpoonup> weather_info"
  track_conditions :: "string \<rightharpoonup> track_condition_info"

text \<open>\<^verbatim>\<open>fuel_weight_to_lap_time\<close>: 0.035 seconds per kg per km of track.\<close>

definition fuel_weight_to_lap_time :: "real \<Rightarrow> real \<Rightarrow> real" where
  "fuel_weight_to_lap_time fuel_kg circuit_len =
     (let time_penalty_per_kg_per_km = 0.035
      in fuel_kg * (circuit_len / 1000) * time_penalty_per_kg_per_km)"

text \<open>
  \<^verbatim>\<open>calculate_tire_degradation\<close>: both table entries are read with a default (10 laps,
  0.05 per lap); the warm-up branch divides by the peak lap count.
\<close>

definition calculate_tire_degradation :: "int \<Rightarrow> tire_info \<Rightarrow> py_error + real" where
  "calculate_tire_degradation lap ti =
     (let peak_laps = get_default (peak_performance_laps ti) 10;
          rate = get_default (degradation_rate ti) 0.05
      in if real_of_int lap \<le> peak_laps
         then ebind (true_div (real_of_int lap) peak_laps) (\<lambda>q. Inr (min 1.0 (0.95 + q * 0.05)))
         else (let laps_past_peak = real_of_int lap - peak_laps;
                   degradation = 1.0 - laps_past_peak * rate
               in Inr (max 0.7 degradation)))"

definition base_benefit :: "string \<Rightarrow> real" where
  "base_benefit t =
     (if t = ''high_speed'' then 0.8
      else if t = ''medium_speed'' then 0.4
      else if t = ''low_speed'' then 0.1
      else 0.4)"

definition calculate_drs_benefit :: "sector \<Rightarrow> bool \<Rightarrow> real" where
  "calculate_drs_benefit s has_drs =
     (if \<not> has_drs then 0.0
      else base_benefit (get_default (sector_type s) ''medium_speed''))"

text \<open>
  \<^verbatim>\<open>apply_weather_effect\<close>: the time divided by grip times speed, the 15 percent penalty
  and the warning for a compound outside the optimal list, then the mistake term.  The
  warning is the empty string when there is none.
\<close>

definition apply_weather_effect :: "real \<Rightarrow> weather_info \<Rightarrow> string \<Rightarrow> py_error + (real \<times> string)" where
  "apply_weather_effect base_time w cmp =
     (let grip = get_default (weather_grip_modifier w) 1.0;
          speed = get_default (weather_speed_modifier w) 1.0;
          mistake_prob = get_default (weather_mistake_probability w) 0.0
      in ebind (true_div base_time (grip * speed)) (\<lambda>modified_time.
           let optimal_tires = get_default (weather_optimal_tire w) [];
               suboptimal = (cmp \<notin> set optimal_tires);
               modified_time2 = (if suboptimal then modified_time * 1.15 else modified_time);
               warning = (if suboptimal
                          then ''Suboptimal tire compound for ''
                                 @ get_default (weather_name w) ''current'' @ '' conditions''
                          else []);
               mistake_time = base_time * mistake_prob * 0.1
           in Inr (modified_time2 + mistake_time, warning)))"

definition calculate_driver_effect :: "real \<Rightarrow> real \<times> real" where
  "calculate_driver_effect aggression_level =
     (let time_modifier = 1.0 - aggression_level * 0.08;
          mistake_probability = aggression_level * 0.15
      in (time_modifier, mistake_probability))"

section \<open>Car (modules/car.py)\<close>

record car =
  car_tire_data :: tire_table
  tire_compound :: string
  fuel_load :: real
  downforce_level :: int
  engine_mode :: string
  ers_deployment :: string
  base_weight :: real
  power_unit_power :: real
  drag_coefficient :: real
  current_lap :: int
  tire_temperature :: int

text \<open>\<^verbatim>\<open>Car.__init__\<close>: the table is the content of tires.json.\<close>

definition Car_init :: "tire_table \<Rightarrow> string \<Rightarrow> real \<Rightarrow> py_error + car" where
  "Car_init td cmp fuel =
     (if tire_compounds td cmp = None then Inl ValueError
      else if \<not> (0 \<le> fuel \<and> fuel \<le> 110) then Inl ValueError
      else Inr \<lparr> car_tire_data = td, tire_compound = cmp, fuel_load = fuel,
                 downforce_level = 5, engine_mode = ''race'', ers_deployment = ''auto'',
                 base_weight = 798, power_unit_power = 1000, drag_coefficient = 1.0,
                 current_lap = 1, tire_temperature = 90 \<rparr>)"

definition valid_engine_modes :: "string list" where
  "valid_engine_modes = [''quali'', ''race'', ''conservation'']"

definition valid_ers_modes :: "string list" where
  "valid_ers_modes = [''auto'', ''aggressive'', ''conservative'']"

definition set_setup :: "car \<Rightarrow> int \<Rightarrow> string \<Rightarrow> string \<Rightarrow> py_error + car" where
  "set_setup c downforce emode ers =
     (if \<not> (1 \<le> downforce \<and> downforce \<le> 10) then Inl ValueError
      else if emode \<notin> set valid_engine_modes then Inl ValueError
      else if ers \<notin> set valid_ers_modes then Inl ValueError
      else Inr (c\<lparr> downforce_level := downforce, engine_mode := emode, ers_deployment := ers,
                   drag_coefficient := 0.7 + (real_of_int downforce / 10) * 0.6 \<rparr>))"

definition calculate_temperature_effect :: "car \<Rightarrow> py_error + real" where
  "calculate_temperature_effect c =
     ebind (subscript (tire_compounds (car_tire_data c)) (tire_compound c)) (\<lambda>ti.
       let optimal_range = optimal_temp_range ti;
           t = real_of_int (tire_temperature c)
       in if fst optimal_range \<le> t \<and> t \<le> snd optimal_range then Inr 1.0
          else if t < temp_threshold (cold (car_tire_data c))
               then Inr (1.0 - grip_loss (cold (car_tire_data c)))
          else if t > temp_threshold (overheated (car_tire_data c))
               then Inr (1.0 - grip_loss (overheated (car_tire_data c)))
          else if t < fst optimal_range
               then (let temp_diff = fst optimal_range - t in Inr (1.0 - (temp_diff / 20) * 0.05))
          else (let temp_diff = t - snd optimal_range in Inr (1.0 - (temp_diff / 20) * 0.05)))"

record tire_performance =
  base_grip :: real
  degradation_multiplier :: real
  temperature_effect :: real
  effective_grip :: real
  compound :: string
  perf_lap_number :: int
  tire_life_remaining :: real

definition get_tire_performance :: "car \<Rightarrow> int option \<Rightarrow> py_error + tire_performance" where
  "get_tire_performance c lap_opt =
     (let lap = (case lap_opt of None \<Rightarrow> current_lap c | Some n \<Rightarrow> n)
      in ebind (subscript (tire_compounds (car_tire_data c)) (tire_compound c)) (\<lambda>ti.
         ebind (calculate_tire_degradation lap ti) (\<lambda>deg.
         ebind (calculate_temperature_effect c) (\<lambda>temp_eff.
         ebind (true_div (real_of_int lap) (life_span ti)) (\<lambda>used.
           Inr \<lparr> base_grip = grip_modifier ti,
                 degradation_multiplier = deg,
                 temperature_effect = temp_eff,
                 effective_grip = grip_modifier ti * deg * temp_eff,
                 compound = tire_compound c,
                 perf_lap_number = lap,
                 tire_life_remaining = max 0 (1 - used) \<rparr>)))))"

record engine_modifier =
  em_power :: real
  em_fuel_consumption :: real
  em_reliability :: real

definition engine_modifiers :: "string \<rightharpoonup> engine_modifier" where
  "engine_modifiers m =
     (if m = ''quali'' then Some \<lparr> em_power = 1.08, em_fuel_consumption = 1.5, em_reliability = 0.95 \<rparr>
      else if m = ''race'' then Some \<lparr> em_power = 1.0, em_fuel_consumption = 1.0, em_reliability = 1.0 \<rparr>
      else if m = ''conservation''
        then Some \<lparr> em_power = 0.92, em_fuel_consumption = 0.85, em_reliability = 1.05 \<rparr>
      else None)"

record ers_modifier =
  power_boost :: real
  deployment_time :: real

definition ers_modifiers :: "string \<rightharpoonup> ers_modifier" where
  "ers_modifiers m =
     (if m = ''aggressive'' then Some \<lparr> power_boost = 50, deployment_time = 0.8 \<rparr>
      else if m = ''auto'' then Some \<lparr> power_boost = 35, deployment_time = 0.6 \<rparr>
      else if m = ''conservative'' then Some \<lparr> power_boost = 25, deployment_time = 0.4 \<rparr>
      else None)"

record engine_performance =
  base_power :: real
  engine_mode_multiplier :: real
  effective_power :: real
  ers_contribution :: real
  total_power :: real
  fuel_consumption_rate :: real
  reliability_factor :: real

definition get_engine_performance :: "car \<Rightarrow> py_error + engine_performance" where
  "get_engine_performance c =
     ebind (subscript engine_modifiers (engine_mode c)) (\<lambda>engine_mod.
     ebind (subscript ers_modifiers (ers_deployment c)) (\<lambda>ers_mod.
       let eff = power_unit_power c * em_power engine_mod;
           ers = power_boost ers_mod * deployment_time ers_mod
       in Inr \<lparr> base_power = power_unit_power c,
                engine_mode_multiplier = em_power engine_mod,
                effective_power = eff,
                ers_contribution = ers,
                total_power = eff + ers,
                fuel_consumption_rate = em_fuel_consumption engine_mod,
                reliability_factor = em_reliability engine_mod \<rparr>))"

record aero_balance =
  aero_downforce_level :: int
  cornering_multiplier :: real
  drag_multiplier :: real
  aero_drag_coefficient :: real
  balance_type :: string

definition get_aero_balance_description :: "car \<Rightarrow> string" where
  "get_aero_balance_description c =
     (if downforce_level c \<le> 3 then ''Low downforce (Monza-style)''
      else if downforce_level c \<le> 7 then ''Medium downforce (Balanced)''
      else ''High downforce (Monaco-style)'')"

definition get_aerodynamic_balance :: "car \<Rightarrow> aero_balance" where
  "get_aerodynamic_balance c =
     (let downforce_efficiency = real_of_int (downforce_level c) / 10;
          cornering_benefit = 1.0 + downforce_efficiency * 0.15;
          straight_line_penalty = 1.0 + downforce_efficiency * 0.08
      in \<lparr> aero_downforce_level = downforce_level c,
           cornering_multiplier = cornering_benefit,
           drag_multiplier = straight_line_penalty,
           aero_drag_coefficient = drag_coefficient c,
           balance_type = get_aero_balance_description c \<rparr>)"

definition get_total_weight :: "car \<Rightarrow> real" where
  "get_total_weight c = base_weight c + fuel_load c"

definition consumption_rates :: "string \<rightharpoonup> real" where
  "consumption_rates m =
     (if m = ''quali'' then Some 3.5
      else if m = ''race'' then Some 2.8
      else if m = ''conservation'' then Some 2.3
      else None)"

text \<open>Python's \<^verbatim>\<open>int(x)\<close> on a float truncates towards zero.\<close>

definition py_int :: "real \<Rightarrow> int" where
  "py_int x = (if 0 \<le> x then \<lfloor>x\<rfloor> else \<lceil>x\<rceil>)"

definition estimate_fuel_laps :: "car \<Rightarrow> py_error + int" where
  "estimate_fuel_laps c =
     ebind (subscript consumption_rates (engine_mode c)) (\<lambda>consumption_per_lap.
       Inr (py_int (fuel_load c / consumption_per_lap)))"

record fuel_effect =
  fe_fuel_load :: real
  total_weight :: real
  time_penalty :: real
  handling_multiplier :: real
  laps_remaining :: int

definition get_fuel_effect :: "car \<Rightarrow> real \<Rightarrow> py_error + fuel_effect" where
  "get_fuel_effect c circuit_len =
     (let penalty = fuel_weight_to_lap_time (fuel_load c) circuit_len;
          handling_effect = 1.0 + fuel_load c / 1000
      in ebind (estimate_fuel_laps c) (\<lambda>laps.
           Inr \<lparr> fe_fuel_load = fuel_load c,
                 total_weight = get_total_weight c,
                 time_penalty = penalty,
                 handling_multiplier = handling_effect,
                 laps_remaining = laps \<rparr>))"

definition temp_changes :: "string \<Rightarrow> int" where
  "temp_changes t =
     (if t = ''low_speed'' then - 2
      else if t = ''medium_speed'' then 0
      else if t = ''high_speed'' then 3
      else 0)"

text \<open>\<^verbatim>\<open>update_tire_state\<close>: the only assignment to the temperature after construction.\<close>

definition update_tire_state :: "car \<Rightarrow> int \<Rightarrow> string \<Rightarrow> car" where
  "update_tire_state c lap stype =
     (let c1 = c\<lparr> current_lap := lap \<rparr>;
          temp_change = temp_changes stype
      in c1\<lparr> tire_temperature := max 60 (min 140 (tire_temperature c1 + temp_change)) \<rparr>)"

section \<open>The random source\<close>

text \<open>
  The simulator draws from Python's module-level generator.  A run of the generator is a
  sequence of draws \<open>draws 0, draws 1, \<dots>\<close> from [0, 1) and the position of the next one;
  \<^verbatim>\<open>random.random()\<close> takes one draw, \<^verbatim>\<open>random.uniform(a, b)\<close> is
  \<^verbatim>\<open>a + (b - a) * random()\<close>.
\<close>

definition random_random :: "(nat \<Rightarrow> real) \<Rightarrow> nat \<Rightarrow> real \<times> nat" where
  "random_random draws p = (draws p, Suc p)"

definition random_uniform :: "(nat \<Rightarrow> real) \<Rightarrow> nat \<Rightarrow> real \<Rightarrow> real \<Rightarrow> real \<times> nat" where
  "random_uniform draws p a b = (a + (b - a) * draws p, Suc p)"

section \<open>Lap simulator (modules/lap\_simulator.py)\<close>

record lap_simulator =
  sim_circuit :: circuit
  sim_car :: car
  weather :: string
  weather_data :: weather_table
  current_weather :: weather_info
  driver_aggression :: real
  track_condition :: string
  use_drs :: bool
  simulation_variance :: real

text \<open>\<^verbatim>\<open>LapSimulator.__init__\<close>: the table is the content of weather\_presets.json.\<close>

definition LapSimulator_init :: "weather_table \<Rightarrow> circuit \<Rightarrow> car \<Rightarrow> string \<Rightarrow> py_error + lap_simulator" where
  "LapSimulator_init wd c v w =
     (case weather_conditions wd w of
        None \<Rightarrow> Inl ValueError
      | Some cw \<Rightarrow> Inr \<lparr> sim_circuit = c, sim_car = v, weather = w, weather_data = wd,
                        current_weather = cw, driver_aggression = 0.5,
                        track_condition = ''rubbered_in'', use_drs = True,
                        simulation_variance = 0.02 \<rparr>)"

definition set_driver_parameters :: "lap_simulator \<Rightarrow> real \<Rightarrow> bool \<Rightarrow> py_error + lap_simulator" where
  "set_driver_parameters sim aggression drs =
     (if \<not> (0.0 \<le> aggression \<and> aggression \<le> 1.0) then Inl ValueError
      else Inr (sim\<lparr> driver_aggression := aggression, use_drs := drs \<rparr>))"

definition set_track_condition :: "lap_simulator \<Rightarrow> string \<Rightarrow> py_error + lap_simulator" where
  "set_track_condition sim condition =
     (if track_conditions (weather_data sim) condition = None then Inl ValueError
      else Inr (sim\<lparr> track_condition := condition \<rparr>))"

record modifiers =
  mod_tire_grip :: real
  mod_tire_degradation :: real
  mod_tire_temperature :: real
  mod_fuel_penalty :: real
  mod_downforce_level :: int
  mod_engine_power :: real
  mod_weather_grip :: real
  mod_track_condition :: real
  mod_driver_aggression :: real
  mod_driver_mistake :: "real option"

definition calculate_all_modifiers ::
  "lap_simulator \<Rightarrow> tire_performance \<Rightarrow> engine_performance \<Rightarrow> fuel_effect \<Rightarrow> py_error + modifiers" where
  "calculate_all_modifiers sim tire_perf engine_perf fuel_eff =
     (case weather_grip_modifier (current_weather sim) of
        None \<Rightarrow> Inl KeyError
      | Some wg \<Rightarrow>
          ebind (subscript (track_conditions (weather_data sim)) (track_condition sim)) (\<lambda>tc.
            Inr \<lparr> mod_tire_grip = effective_grip tire_perf,
                  mod_tire_degradation = degradation_multiplier tire_perf,
                  mod_tire_temperature = temperature_effect tire_perf,
                  mod_fuel_penalty = time_penalty fuel_eff,
                  mod_downforce_level = downforce_level (sim_car sim),
                  mod_engine_power = total_power engine_perf,
                  mod_weather_grip = wg,
                  mod_track_condition = condition_grip_modifier tc,
                  mod_driver_aggression = driver_aggression sim,
                  mod_driver_mistake = None \<rparr>))"

record sector_result =
  sr_sector_number :: int
  sr_time :: real
  sr_base_time :: real
  sr_modifiers :: modifiers
  sr_warnings :: "string list"
  sr_has_drs :: bool
  sr_sector_data :: sector

text \<open>The aerodynamic step of the pipeline, by sector type (a missing type is neither).\<close>

definition aero_adjust :: "sector \<Rightarrow> aero_balance \<Rightarrow> real \<Rightarrow> py_error + real" where
  "aero_adjust s aero t =
     (if sector_type s = Some ''high_speed'' then Inr (t * drag_multiplier aero)
      else if sector_type s = Some ''low_speed'' then true_div t (cornering_multiplier aero)
      else (let drag_effect = (drag_multiplier aero - 1.0) * 0.5;
                corner_effect = (cornering_multiplier aero - 1.0) * 0.5
            in Inr (t * (1.0 + drag_effect - corner_effect))))"

text \<open>
  The two random steps of the pipeline: the variance draw (only when the variance is
  positive), then the mistake test, then the mistake size (only when the test fires).
\<close>

definition random_steps ::
  "real \<Rightarrow> real \<Rightarrow> (nat \<Rightarrow> real) \<Rightarrow> nat \<Rightarrow> real \<Rightarrow> modifiers \<Rightarrow> real \<times> modifiers \<times> nat" where
  "random_steps variance mistake_prob draws p t mods =
     (let (t1, p1) = (if variance > 0
                      then (let (v, q) = random_uniform draws p (- variance) variance
                            in (t * (1.0 + v), q))
                      else (t, p));
          (r, p2) = random_random draws p1
      in if r < mistake_prob
         then (let (u, p3) = random_uniform draws p2 0.05 0.15;
                   mistake_time = t1 * u
               in (t1 + mistake_time, mods\<lparr> mod_driver_mistake := Some mistake_time \<rparr>, p3))
         else (t1, mods, p2))"

text \<open>
  \<^verbatim>\<open>calculate_sector_time\<close>, in the order of the source.  The result carries the
  simulator with the car as \<^verbatim>\<open>update_tire_state\<close> left it, and the position of the next
  draw.  When a step after the tire update raises, the Python car keeps the update and
  the model has only the error; the reachable vehicle states below include that car.
\<close>

definition calculate_sector_time ::
  "lap_simulator \<Rightarrow> (nat \<Rightarrow> real) \<Rightarrow> nat \<Rightarrow> int \<Rightarrow> int
     \<Rightarrow> py_error + (sector_result \<times> lap_simulator \<times> nat)" where
  "calculate_sector_time sim draws p sector_number lap_number =
     ebind (get_sector_base_time (sim_circuit sim) sector_number) (\<lambda>base_sector_time.
     case get_sector_data (sim_circuit sim) sector_number of
       None \<Rightarrow> Inl ValueError
     | Some sector_data \<Rightarrow>
        (let v = update_tire_state (sim_car sim) lap_number
                   (get_default (sector_type sector_data) ''medium_speed'');
             sim1 = sim\<lparr> sim_car := v \<rparr>
         in ebind (get_tire_performance v (Some lap_number)) (\<lambda>tire_perf.
            ebind (get_engine_performance v) (\<lambda>engine_perf.
            let aero = get_aerodynamic_balance v in
            ebind (get_fuel_effect v (circuit_length (sim_circuit sim))) (\<lambda>fuel_eff.
            ebind (calculate_all_modifiers sim1 tire_perf engine_perf fuel_eff) (\<lambda>mods.
            ebind (true_div base_sector_time (effective_grip tire_perf)) (\<lambda>t1.
            ebind (true_div (time_penalty fuel_eff) (real (get_total_sectors (sim_circuit sim)))) (\<lambda>share.
            ebind (aero_adjust sector_data aero (t1 + share)) (\<lambda>t2.
            ebind (true_div t2 (0.95 + (total_power engine_perf / 1000) * 0.05)) (\<lambda>t3.
            let t4 = (if use_drs sim \<and> has_drs_in_sector (sim_circuit sim) sector_number
                      then t3 - calculate_drs_benefit sector_data True else t3) in
            ebind (apply_weather_effect t4 (current_weather sim) (tire_compound v)) (\<lambda>(t5, weather_warning).
            ebind (subscript (track_conditions (weather_data sim)) (track_condition sim)) (\<lambda>tc.
            ebind (true_div t5 (condition_grip_modifier tc)) (\<lambda>t6.
            let (driver_time_mod, mistake_prob) = calculate_driver_effect (driver_aggression sim);
                (t7, mods1, p1) = random_steps (simulation_variance sim) mistake_prob draws p
                                    (t6 * driver_time_mod) mods
            in Inr (\<lparr> sr_sector_number = sector_number,
                      sr_time = max 0 t7,
                      sr_base_time = base_sector_time,
                      sr_modifiers = mods1,
                      sr_warnings = (if weather_warning \<noteq> [] then [weather_warning] else []),
                      sr_has_drs = has_drs_in_sector (sim_circuit sim) sector_number,
                      sr_sector_data = sector_data \<rparr>, sim1, p1))))))))))))))"

text \<open>The loop of \<^verbatim>\<open>simulate_full_lap\<close> over the sector numbers 1 .. n.\<close>

fun lap_loop ::
  "lap_simulator \<Rightarrow> (nat \<Rightarrow> real) \<Rightarrow> nat \<Rightarrow> int \<Rightarrow> int list
     \<Rightarrow> py_error + (sector_result list \<times> lap_simulator \<times> nat)" where
  "lap_loop sim draws p lap [] = Inr ([], sim, p)"
| "lap_loop sim draws p lap (n # ns) =
     ebind (calculate_sector_time sim draws p n lap) (\<lambda>(r, sim1, p1).
     ebind (lap_loop sim1 draws p1 lap ns) (\<lambda>(rs, sim2, p2). Inr (r # rs, sim2, p2)))"

text \<open>
  \<^verbatim>\<open>min(range(n), key=...)\<close> and \<^verbatim>\<open>max(range(n), key=...)\<close> keep the first best index and
  raise on an empty range.
\<close>

fun min_index_loop :: "real list \<Rightarrow> nat \<Rightarrow> nat \<Rightarrow> real \<Rightarrow> nat" where
  "min_index_loop [] i best bestv = best"
| "min_index_loop (x # xs) i best bestv =
     (if x < bestv then min_index_loop xs (Suc i) i x else min_index_loop xs (Suc i) best bestv)"

fun max_index_loop :: "real list \<Rightarrow> nat \<Rightarrow> nat \<Rightarrow> real \<Rightarrow> nat" where
  "max_index_loop [] i best bestv = best"
| "max_index_loop (x # xs) i best bestv =
     (if x > bestv then max_index_loop xs (Suc i) i x else max_index_loop xs (Suc i) best bestv)"

definition py_min_index :: "real list \<Rightarrow> py_error + nat" where
  "py_min_index xs = (case xs of [] \<Rightarrow> Inl ValueError | x # rest \<Rightarrow> Inr (min_index_loop rest 1 0 x))"

definition py_max_index :: "real list \<Rightarrow> py_error + nat" where
  "py_max_index xs = (case xs of [] \<Rightarrow> Inl ValueError | x # rest \<Rightarrow> Inr (max_index_loop rest 1 0 x))"

definition py_max :: "real list \<Rightarrow> py_error + real" where
  "py_max xs = (case xs of [] \<Rightarrow> Inl ValueError | x # rest \<Rightarrow> Inr (fold max rest x))"

definition py_min :: "real list \<Rightarrow> py_error + real" where
  "py_min xs = (case xs of [] \<Rightarrow> Inl ValueError | x # rest \<Rightarrow> Inr (fold min rest x))"

definition py_sum :: "real list \<Rightarrow> real" where
  "py_sum xs = foldl (+) 0 xs"

record time_loss_breakdown =
  loss_tire_degradation :: real
  loss_fuel_weight :: real
  loss_weather_conditions :: real
  loss_suboptimal_setup :: real

record lap_statistics =
  fastest_sector :: nat
  slowest_sector :: nat
  sector_balance :: real
  theoretical_best :: real
  time_delta_to_theoretical :: real
  average_sector_time :: real
  tire_performance_remaining :: real
  estimated_fuel_remaining :: real
  stat_time_loss_breakdown :: time_loss_breakdown

definition calculate_lap_statistics ::
  "lap_simulator \<Rightarrow> sector_result list \<Rightarrow> real \<Rightarrow> py_error + lap_statistics" where
  "calculate_lap_statistics sim sector_results lap_total =
     (let sector_times = map sr_time sector_results in
      ebind (py_min_index sector_times) (\<lambda>fastest.
      ebind (py_max_index sector_times) (\<lambda>slowest.
      let best_possible_sectors = map sr_base_time sector_results;
          theoretical = py_sum best_possible_sectors in
      ebind (get_tire_performance (sim_car sim) None) (\<lambda>tire_perf.
      ebind (true_div (py_sum (map (\<lambda>s. mod_fuel_penalty (sr_modifiers s)) sector_results))
                    (real (length sector_results))) (\<lambda>fuel_weight.
      case weather_grip_modifier (current_weather sim) of
        None \<Rightarrow> Inl KeyError
      | Some wg \<Rightarrow>
      ebind (py_max sector_times) (\<lambda>longest.
      ebind (py_min sector_times) (\<lambda>shortest.
      ebind (true_div lap_total (real (length sector_results))) (\<lambda>average.
        Inr \<lparr> fastest_sector = fastest + 1,
              slowest_sector = slowest + 1,
              sector_balance = longest - shortest,
              theoretical_best = theoretical,
              time_delta_to_theoretical = lap_total - theoretical,
              average_sector_time = average,
              tire_performance_remaining = tire_life_remaining tire_perf,
              estimated_fuel_remaining =
                 max 0 (fuel_load (sim_car sim) - 2.8 * real_of_int (current_lap (sim_car sim))),
              stat_time_loss_breakdown =
                 \<lparr> loss_tire_degradation = lap_total * (1 - degradation_multiplier tire_perf) * 0.1,
                   loss_fuel_weight = fuel_weight,
                   loss_weather_conditions = lap_total * (1 - wg) * 0.05,
                   loss_suboptimal_setup = 0 \<rparr> \<rparr>))))))))"

record conditions =
  cond_circuit :: string
  cond_weather :: string
  cond_track_condition :: string
  cond_tire_compound :: string
  cond_fuel_load :: real

record lap_result =
  lap_number :: int
  total_time :: real
  sector_times :: "real list"
  sector_results :: "sector_result list"
  lap_stats :: lap_statistics
  warnings :: "string list"
  lap_conditions :: conditions

text \<open>
  \<^verbatim>\<open>simulate_full_lap\<close>.  The warnings are \<^verbatim>\<open>list(set(all_warnings))\<close>: the distinct
  warnings (all sectors of a lap share weather and compound, so there is at most one).
\<close>

definition simulate_full_lap ::
  "lap_simulator \<Rightarrow> (nat \<Rightarrow> real) \<Rightarrow> nat \<Rightarrow> int \<Rightarrow> py_error + (lap_result \<times> lap_simulator \<times> nat)" where
  "simulate_full_lap sim draws p lap =
     ebind (lap_loop sim draws p lap [1 .. int (get_total_sectors (sim_circuit sim))]) (\<lambda>(rs, sim1, p1).
       let lap_total = py_sum (map sr_time rs);
           all_warnings = concat (map sr_warnings rs) in
       ebind (calculate_lap_statistics sim1 rs lap_total) (\<lambda>stats.
         Inr (\<lparr> lap_number = lap,
                total_time = lap_total,
                sector_times = map sr_time rs,
                sector_results = rs,
                lap_stats = stats,
                warnings = remdups all_warnings,
                lap_conditions = \<lparr> cond_circuit = name (sim_circuit sim1),
                                   cond_weather = weather sim1,
                                   cond_track_condition = track_condition sim1,
                                   cond_tire_compound = tire_compound (sim_car sim1),
                                   cond_fuel_load = fuel_load (sim_car sim1) \<rparr> \<rparr>, sim1, p1)))"

text \<open>\<^verbatim>\<open>simulate_stint\<close>: the laps start_lap, start_lap + 1, ... on the same car.\<close>

fun stint_loop ::
  "lap_simulator \<Rightarrow> (nat \<Rightarrow> real) \<Rightarrow> nat \<Rightarrow> int \<Rightarrow> nat
     \<Rightarrow> py_error + (lap_result list \<times> lap_simulator \<times> nat)" where
  "stint_loop sim draws p lap 0 = Inr ([], sim, p)"
| "stint_loop sim draws p lap (Suc k) =
     ebind (simulate_full_lap sim draws p lap) (\<lambda>(r, sim1, p1).
       let sim2 = sim1\<lparr> sim_car := (sim_car sim1)\<lparr> current_lap := lap \<rparr> \<rparr> in
       ebind (stint_loop sim2 draws p1 (lap + 1) k) (\<lambda>(rs, sim3, p3). Inr (r # rs, sim3, p3)))"

definition simulate_stint ::
  "lap_simulator \<Rightarrow> (nat \<Rightarrow> real) \<Rightarrow> nat \<Rightarrow> int \<Rightarrow> int
     \<Rightarrow> py_error + (lap_result list \<times> lap_simulator \<times> nat)" where
  "simulate_stint sim draws p num_laps start_lap = stint_loop sim draws p start_lap (nat num_laps)"

subsection \<open>Configuration comparison\<close>

text \<open>
  A configuration is a dictionary; the comparison reads the keys tire, fuel, downforce,
  engine\_mode and ers, each optional.
\<close>

record config =
  cfg_tire :: "string option"
  cfg_fuel :: "real option"
  cfg_downforce :: "int option"
  cfg_engine_mode :: "string option"
  cfg_ers :: "string option"

record comparison_result =
  cr_lap :: lap_result
  configuration :: config
  config_index :: nat

text \<open>
  One iteration of the loop of \<^verbatim>\<open>compare_configurations\<close>: a new car from the tire table, a
  new simulator for it with the driver parameters and track condition of the comparing
  simulator, one lap with lap number 1.
\<close>

definition evaluate_configuration ::
  "tire_table \<Rightarrow> weather_table \<Rightarrow> lap_simulator \<Rightarrow> (nat \<Rightarrow> real) \<Rightarrow> nat \<Rightarrow> nat \<Rightarrow> config
     \<Rightarrow> py_error + (comparison_result \<times> nat)" where
  "evaluate_configuration td wd sim draws p i cfg =
     ebind (Car_init td (get_default (cfg_tire cfg) ''medium'') (get_default (cfg_fuel cfg) 50.0)) (\<lambda>temp_car.
     ebind (if has_key (cfg_downforce cfg) \<or> has_key (cfg_engine_mode cfg) \<or> has_key (cfg_ers cfg)
            then set_setup temp_car (get_default (cfg_downforce cfg) 5)
                   (get_default (cfg_engine_mode cfg) ''race'') (get_default (cfg_ers cfg) ''auto'')
            else Inr temp_car) (\<lambda>temp_car1.
     ebind (LapSimulator_init wd (sim_circuit sim) temp_car1 (weather sim)) (\<lambda>temp_sim.
     ebind (set_driver_parameters temp_sim (driver_aggression sim) (use_drs sim)) (\<lambda>temp_sim1.
     ebind (set_track_condition temp_sim1 (track_condition sim)) (\<lambda>temp_sim2.
     ebind (simulate_full_lap temp_sim2 draws p 1) (\<lambda>(result, temp_sim3, p1).
       Inr (\<lparr> cr_lap = result, configuration = cfg, config_index = i \<rparr>, p1)))))))"

fun compare_loop ::
  "tire_table \<Rightarrow> weather_table \<Rightarrow> lap_simulator \<Rightarrow> (nat \<Rightarrow> real) \<Rightarrow> nat \<Rightarrow> nat \<Rightarrow> config list
     \<Rightarrow> py_error + (comparison_result list \<times> nat)" where
  "compare_loop td wd sim draws p i [] = Inr ([], p)"
| "compare_loop td wd sim draws p i (cfg # cfgs) =
     ebind (evaluate_configuration td wd sim draws p i cfg) (\<lambda>(r, p1).
     ebind (compare_loop td wd sim draws p1 (Suc i) cfgs) (\<lambda>(rs, p2). Inr (r # rs, p2)))"

text \<open>
  \<^verbatim>\<open>compare_configurations\<close>: the loop, then \<^verbatim>\<open>results.sort(key=...)\<close>, Python's stable
  sort, here the stable insertion sort of the list library.
\<close>

definition compare_configurations ::
  "tire_table \<Rightarrow> weather_table \<Rightarrow> lap_simulator \<Rightarrow> (nat \<Rightarrow> real) \<Rightarrow> nat \<Rightarrow> config list
     \<Rightarrow> py_error + (comparison_result list \<times> nat)" where
  "compare_configurations td wd sim draws p configurations =
     ebind (compare_loop td wd sim draws p 0 configurations) (\<lambda>(results, p1).
       Inr (sort_key (\<lambda>x. total_time (cr_lap x)) results, p1))"

section \<open>Sample data\<close>

text \<open>
  The JSON tables are not part of the sources; the properties below hold for every table.
  The following small tables and tracks are the concrete inputs at which the properties
  are instantiated.
\<close>

definition sample_medium :: tire_info where
  "sample_medium = \<lparr> grip_modifier = 1, optimal_temp_range = (85, 105),
      peak_performance_laps = Some 10, degradation_rate = Some (1 / 20), life_span = 40 \<rparr>"

definition sample_soft :: tire_info where
  "sample_soft = \<lparr> grip_modifier = 21 / 20, optimal_temp_range = (90, 110),
      peak_performance_laps = Some 5, degradation_rate = Some (1 / 10), life_span = 25 \<rparr>"

definition sample_tires :: tire_table where
  "sample_tires = \<lparr> tire_compounds = [''medium'' \<mapsto> sample_medium, ''soft'' \<mapsto> sample_soft],
      cold = \<lparr> temp_threshold = 70, grip_loss = 3 / 20 \<rparr>,
      overheated = \<lparr> temp_threshold = 120, grip_loss = 1 / 5 \<rparr> \<rparr>"

definition sample_dry :: weather_info where
  "sample_dry = \<lparr> weather_grip_modifier = Some 1, weather_speed_modifier = Some 1,
      weather_mistake_probability = Some 0,
      weather_optimal_tire = Some [''soft'', ''medium'', ''hard''], weather_name = Some ''Dry'' \<rparr>"

definition sample_weather :: weather_table where
  "sample_weather = \<lparr> weather_conditions = [''dry'' \<mapsto> sample_dry],
      track_conditions = [''rubbered_in'' \<mapsto> \<lparr> condition_grip_modifier = 1 \<rparr>,
                          ''green'' \<mapsto> \<lparr> condition_grip_modifier = 19 / 20 \<rparr>] \<rparr>"

text \<open>The one-segment track of the concrete scenario: 5000 m, medium speed, 10 turns, 100 s.\<close>

definition scenario_sector :: sector where
  "scenario_sector = \<lparr> number = 1, sector_length = 5000, turns = 10,
      sector_type = Some ''medium_speed'', elevation_change = None \<rparr>"

definition scenario_track :: circuit where
  "scenario_track = \<lparr> name = ''scenario'', full_name = ''Scenario'', country = ''Custom'',
      circuit_length = 5000, sectors = [scenario_sector], drs_zones = [], lap_record = 0,
      base_lap_time = 100, difficulty = 4 / 5 \<rparr>"

definition sample_circuits :: "string \<rightharpoonup> circuit_entry" where
  "sample_circuits = [''scenario'' \<mapsto>
      \<lparr> entry_name = ''Scenario'', entry_country = ''Custom'', entry_length = 5000,
        entry_sectors = [scenario_sector], entry_drs_zones = None, entry_lap_record = None,
        entry_base_lap_time = Some 100, entry_difficulty = None \<rparr>]"

definition sample_car :: car where
  "sample_car = \<lparr> car_tire_data = sample_tires, tire_compound = ''medium'', fuel_load = 50,
      downforce_level = 5, engine_mode = ''race'', ers_deployment = ''auto'',
      base_weight = 798, power_unit_power = 1000, drag_coefficient = 1,
      current_lap = 1, tire_temperature = 90 \<rparr>"

definition sample_sim :: lap_simulator where
  "sample_sim = \<lparr> sim_circuit = scenario_track, sim_car = sample_car, weather = ''dry'',
      weather_data = sample_weather, current_weather = sample_dry, driver_aggression = 1 / 2,
      track_condition = ''rubbered_in'', use_drs = True, simulation_variance = 1 / 50 \<rparr>"

definition heavy_config :: config where
  "heavy_config = \<lparr> cfg_tire = Some ''medium'', cfg_fuel = Some 100, cfg_downforce = None,
      cfg_engine_mode = None, cfg_ers = None \<rparr>"

definition light_config :: config where
  "light_config = \<lparr> cfg_tire = Some ''soft'', cfg_fuel = Some 10, cfg_downforce = Some 6,
      cfg_engine_mode = Some ''quali'', cfg_ers = None \<rparr>"

definition unknown_tire_config :: config where
  "unknown_tire_config = \<lparr> cfg_tire = Some ''slick'', cfg_fuel = None, cfg_downforce = None,
      cfg_engine_mode = None, cfg_ers = None \<rparr>"

definition half_draws :: "nat \<Rightarrow> real" where
  "half_draws i = 1 / 2"

definition other_draws :: "nat \<Rightarrow> real" where
  "other_draws i = (if i < 3 then 1 / 2 else 0)"

definition negative_grip_tires :: tire_table where
  "negative_grip_tires = \<lparr> tire_compounds = [''medium'' \<mapsto>
        \<lparr> grip_modifier = 1, optimal_temp_range = (500, 520),
          peak_performance_laps = Some 10, degradation_rate = Some (1 / 20), life_span = 40 \<rparr>],
      cold = \<lparr> temp_threshold = 50, grip_loss = 1 / 10 \<rparr>,
      overheated = \<lparr> temp_threshold = 600, grip_loss = 1 / 10 \<rparr> \<rparr>"

definition improving_tires :: tire_table where
  "improving_tires = \<lparr> tire_compounds = [''medium'' \<mapsto>
        \<lparr> grip_modifier = 1, optimal_temp_range = (85, 105),
          peak_performance_laps = Some 10, degradation_rate = Some (- 1 / 100), life_span = 40 \<rparr>],
      cold = \<lparr> temp_threshold = 70, grip_loss = 3 / 20 \<rparr>,
      overheated = \<lparr> temp_threshold = 120, grip_loss = 1 / 5 \<rparr> \<rparr>"

definition cold_window_car :: car where
  "cold_window_car = sample_car\<lparr> car_tire_data := negative_grip_tires \<rparr>"

definition improving_car :: car where
  "improving_car = sample_car\<lparr> car_tire_data := improving_tires, current_lap := 30 \<rparr>"

definition negative_loss_tires :: tire_table where
  "negative_loss_tires = \<lparr> tire_compounds = [''medium'' \<mapsto>
        \<lparr> grip_modifier = 1, optimal_temp_range = (100, 110),
          peak_performance_laps = Some 10, degradation_rate = Some (1 / 20), life_span = 40 \<rparr>],
      cold = \<lparr> temp_threshold = 95, grip_loss = - 1 / 2 \<rparr>,
      overheated = \<lparr> temp_threshold = 120, grip_loss = 1 / 5 \<rparr> \<rparr>"

definition negative_loss_car :: car where
  "negative_loss_car = sample_car\<lparr> car_tire_data := negative_loss_tires \<rparr>"

text \<open>The warning of a sector: one string for a compound outside the optimal list.\<close>

definition suboptimal_warning :: "lap_simulator \<Rightarrow> string list" where
  "suboptimal_warning sim =
     (if tire_compound (sim_car sim) \<notin> set (get_default (weather_optimal_tire (current_weather sim)) [])
      then [''Suboptimal tire compound for ''
              @ get_default (weather_name (current_weather sim)) ''current'' @ '' conditions'']
      else [])"

text \<open>A track of one high-speed segment and a compound with a narrow optimal window.\<close>

definition hot_track :: circuit where
  "hot_track = \<lparr> name = ''hot'', full_name = ''Hot'', country = ''Custom'',
      circuit_length = 5000,
      sectors = [\<lparr> number = 1, sector_length = 5000, turns = 2,
                   sector_type = Some ''high_speed'', elevation_change = None \<rparr>],
      drs_zones = [\<lparr> drs_sector = 1 \<rparr>], lap_record = 0, base_lap_time = 100, difficulty = 4 / 5 \<rparr>"

definition narrow_tires :: tire_table where
  "narrow_tires = \<lparr> tire_compounds = [''medium'' \<mapsto>
        \<lparr> grip_modifier = 1, optimal_temp_range = (85, 95),
          peak_performance_laps = Some 10, degradation_rate = Some (1 / 20), life_span = 40 \<rparr>],
      cold = \<lparr> temp_threshold = 70, grip_loss = 3 / 20 \<rparr>,
      overheated = \<lparr> temp_threshold = 120, grip_loss = 1 / 5 \<rparr> \<rparr>"

definition hot_sim :: lap_simulator where
  "hot_sim = sample_sim\<lparr> sim_circuit := hot_track,
                         sim_car := sample_car\<lparr> car_tire_data := narrow_tires \<rparr> \<rparr>"

section \<open>Reachable vehicle states\<close>

definition temp_ok :: "car \<Rightarrow> bool" where
  "temp_ok v = (60 \<le> tire_temperature v \<and> tire_temperature v \<le> 140)"


text \<open>
  The states a car can be in: constructed by \<^verbatim>\<open>Car.__init__\<close>, then changed by
  \<^verbatim>\<open>set_setup\<close>, by \<^verbatim>\<open>update_tire_state\<close> (also when a later step of the same sector
  raises), by the assignment to the current lap in \<^verbatim>\<open>simulate_stint\<close>, and by the three
  levels of the simulator.
\<close>

inductive reachable_car :: "car \<Rightarrow> bool" where
  constructed: "Car_init td cmp fuel = Inr v \<Longrightarrow> reachable_car v"
| configured: "reachable_car v \<Longrightarrow> set_setup v d em ers = Inr v' \<Longrightarrow> reachable_car v'"
| tire_update: "reachable_car v \<Longrightarrow> reachable_car (update_tire_state v n stype)"
| lap_assigned: "reachable_car v \<Longrightarrow> reachable_car (v\<lparr> current_lap := n \<rparr>)"
| sector_run: "reachable_car (sim_car sim) \<Longrightarrow>
     calculate_sector_time sim draws p n lap = Inr (r, sim', p') \<Longrightarrow> reachable_car (sim_car sim')"
| lap_run: "reachable_car (sim_car sim) \<Longrightarrow>
     simulate_full_lap sim draws p lap = Inr (lr, sim', p') \<Longrightarrow> reachable_car (sim_car sim')"
| stint_run: "reachable_car (sim_car sim) \<Longrightarrow>
     simulate_stint sim draws p k lap = Inr (lrs, sim', p') \<Longrightarrow> reachable_car (sim_car sim')"

section \<open>Auxiliary facts\<close>

lemma ebind_Inr [simp]: "ebind (Inr x) f = f x"
  by (simp add: ebind_def)

lemma ebind_Inl [simp]: "ebind (Inl e) f = Inl e"
  by (simp add: ebind_def)

lemma ebind_eq_Inr: "ebind m f = Inr y \<longleftrightarrow> (\<exists>x. m = Inr x \<and> f x = Inr y)"
  by (cases m) simp_all

lemma true_div_nz: "b \<noteq> 0 \<Longrightarrow> true_div a b = Inr (a / b)"
  by (simp add: true_div_def)

lemma true_div_eq_Inr: "true_div a b = Inr q \<longleftrightarrow> b \<noteq> 0 \<and> q = a / b"
  by (auto simp: true_div_def)

lemma find_sector_None: "find_sector ss n = None \<longleftrightarrow> n \<notin> number ` set ss"
  by (induction ss) auto

section \<open>Segment lookup and base time\<close>

text \<open>
  Claim C1, as the code has it.  For a segment number that no segment of the track
  carries, the lookup returns \<^verbatim>\<open>None\<close>, the base-time computation returns 0.0 and the
  difficulty computation 1.0, none of them an error; the segment-time computation of the
  engine tests the lookup and raises \<open>ValueError\<close>, so that no time is computed from
  these defaults.
\<close>

theorem absent_segment_defaults:
  assumes "n \<notin> number ` set (sectors c)"
  shows "get_sector_data c n = None
       \<and> get_sector_base_time c n = Inr 0
       \<and> calculate_sector_difficulty c n = Inr 1
       \<and> calculate_sector_time (sim\<lparr> sim_circuit := c \<rparr>) draws p n lap = Inl ValueError"
proof -
  have none: "get_sector_data c n = None"
    using assms by (simp add: get_sector_data_def find_sector_None)
  then show ?thesis
    by (simp add: get_sector_base_time_def calculate_sector_difficulty_def calculate_sector_time_def)
qed

text \<open>
  Claim C2, as the code has it.  On the track with the single segment of 5000 m, medium
  speed, 10 turns, and a base lap time of 100 s, the turn density is 2 per km, the
  difficulty factor is 0.8 + 0.2 + 0.1 = 1.1 (inside the clamp) and the segment base time
  is 100 * 1.0 * 1.1 = 110 s.
\<close>

theorem scenario_base_time:
  "get_sector_data scenario_track 1
     = Some \<lparr> number = 1, sector_length = 5000, turns = 10,
              sector_type = Some ''medium_speed'', elevation_change = None \<rparr>
   \<and> calculate_sector_difficulty scenario_track 1
       = Inr (max 0.5 (min 1.2 (0.8 + min 0.3 (10 / (5000 / 1000) * 0.1) + 0.1 + 0)))
   \<and> calculate_sector_difficulty scenario_track 1 = Inr 1.1
   \<and> get_sector_base_time scenario_track 1 = Inr (100 * (5000 / 5000) * 1.1)
   \<and> get_sector_base_time scenario_track 1 = Inr 110"
  by (simp add: scenario_track_def scenario_sector_def get_sector_data_def get_sector_base_time_def
      calculate_sector_difficulty_def type_modifier_def get_default_def true_div_def Let_def)

section \<open>Tire degradation\<close>

text \<open>
  Claim C4.  For a compound whose peak lap count is at least 1 and whose degradation rate
  is not negative, the degradation multiplier is computed for every lap number and is at
  most 1.  Up to the peak lap it is min(1.0, 0.95 + (lap / peak) * 0.05).  Past the peak
  lap it is at least 0.7 and does not increase with the lap number.  For lap numbers from 0
  on it never falls below 0.7.
\<close>

theorem tire_degradation_curve:
  assumes pk: "1 \<le> get_default (peak_performance_laps ti) 10"
      and rt: "0 \<le> get_default (degradation_rate ti) 0.05"
  shows "\<exists>d. calculate_tire_degradation l ti = Inr d
           \<and> d \<le> 1
           \<and> (real_of_int l \<le> get_default (peak_performance_laps ti) 10 \<longrightarrow>
                 d = min 1 (0.95 + (real_of_int l / get_default (peak_performance_laps ti) 10) * 0.05))
           \<and> (0 \<le> l \<longrightarrow> 0.7 \<le> d)
           \<and> (get_default (peak_performance_laps ti) 10 < real_of_int l \<longrightarrow>
                 0.7 \<le> d \<and>
                 (\<forall>l'. l \<le> l' \<longrightarrow> (\<exists>d'. calculate_tire_degradation l' ti = Inr d' \<and> d' \<le> d)))"
proof (cases "real_of_int l \<le> get_default (peak_performance_laps ti) 10")
  case True
  define pk where "pk = get_default (peak_performance_laps ti) 10"
  define q where "q = real_of_int l / pk"
  have nz: "pk \<noteq> 0" using pk unfolding pk_def by auto
  have eq: "calculate_tire_degradation l ti = Inr (min 1 (0.95 + q * 0.05))"
    using True nz unfolding q_def pk_def
    by (simp add: calculate_tire_degradation_def Let_def true_div_nz)
  have qnn: "0 \<le> q" if "0 \<le> l"
    unfolding q_def using that pk unfolding pk_def by simp
  have lo: "0.7 \<le> min 1 (0.95 + q * 0.05)" if "0 \<le> l"
    using qnn[OF that] by (simp add: min_def)
  have hi: "min 1 (0.95 + q * 0.05) \<le> 1" by simp
  have "\<not> pk < real_of_int l" using True unfolding pk_def by simp
  then show ?thesis
    using eq lo hi unfolding q_def pk_def by blast
next
  case False
  define pk where "pk = get_default (peak_performance_laps ti) 10"
  define rate where "rate = get_default (degradation_rate ti) 0.05"
  define d where "d = max 0.7 (1 - (real_of_int l - pk) * rate)"
  have eq: "calculate_tire_degradation l ti = Inr d"
    using False unfolding d_def pk_def rate_def
    by (simp add: calculate_tire_degradation_def Let_def)
  have "0 \<le> (real_of_int l - pk) * rate"
    using False rt unfolding pk_def rate_def by (intro mult_nonneg_nonneg) auto
  then have hi: "d \<le> 1" unfolding d_def by simp
  have lo: "0.7 \<le> d" unfolding d_def by simp
  have mono: "\<exists>d'. calculate_tire_degradation l' ti = Inr d' \<and> d' \<le> d" if "l \<le> l'" for l'
  proof -
    have gt: "\<not> real_of_int l' \<le> get_default (peak_performance_laps ti) 10"
      using False that by linarith
    have eq': "calculate_tire_degradation l' ti = Inr (max 0.7 (1 - (real_of_int l' - pk) * rate))"
      using gt unfolding pk_def rate_def by (simp add: calculate_tire_degradation_def Let_def)
    have "(real_of_int l - pk) * rate \<le> (real_of_int l' - pk) * rate"
      using that rt unfolding rate_def by (intro mult_right_mono) auto
    then have "max 0.7 (1 - (real_of_int l' - pk) * rate) \<le> d"
      unfolding d_def by (simp add: max_def)
    then show ?thesis using eq' by blast
  qed
  show ?thesis using eq hi lo mono False by blast
qed

section \<open>Effective grip\<close>

lemma degradation_positive:
  assumes "calculate_tire_degradation l ti = Inr d" and "0 \<le> l"
      and "0 \<le> get_default (degradation_rate ti) 0.05"
  shows "0 < d \<and> d \<le> 1"
proof (cases "real_of_int l \<le> get_default (peak_performance_laps ti) 10")
  case True
  define pk where "pk = get_default (peak_performance_laps ti) 10"
  define q where "q = real_of_int l / pk"
  from assms(1) True have nz: "pk \<noteq> 0" and d: "d = min 1 (0.95 + q * 0.05)"
    unfolding pk_def q_def
    by (auto simp: calculate_tire_degradation_def Let_def ebind_eq_Inr true_div_eq_Inr)
  have "0 \<le> pk" using True assms(2) unfolding pk_def by linarith
  then have "0 \<le> q" unfolding q_def using assms(2) by simp
  then show ?thesis unfolding d by (simp add: min_def)
next
  case False
  define pk where "pk = get_default (peak_performance_laps ti) 10"
  define rate where "rate = get_default (degradation_rate ti) 0.05"
  from assms(1) False have d: "d = max 0.7 (1 - (real_of_int l - pk) * rate)"
    unfolding pk_def rate_def by (auto simp: calculate_tire_degradation_def Let_def)
  have "0 \<le> (real_of_int l - pk) * rate"
    using False assms(3) unfolding pk_def rate_def by (intro mult_nonneg_nonneg) auto
  then show ?thesis unfolding d by (simp add: max_def)
qed

lemma temperature_effect_bounds:
  assumes te: "calculate_temperature_effect c = Inr te"
      and ti: "tire_compounds (car_tire_data c) (tire_compound c) = Some ti"
      and temp: "60 \<le> tire_temperature c" "tire_temperature c \<le> 140"
      and cl: "0 \<le> grip_loss (cold (car_tire_data c))" "grip_loss (cold (car_tire_data c)) < 1"
      and hl: "0 \<le> grip_loss (overheated (car_tire_data c))" "grip_loss (overheated (car_tire_data c)) < 1"
      and win: "fst (optimal_temp_range ti) < 460" "- 260 < snd (optimal_temp_range ti)"
  shows "0 < te \<and> te \<le> 1"
proof -
  define t where "t = real_of_int (tire_temperature c)"
  have tb: "60 \<le> t" "t \<le> 140" unfolding t_def using temp by simp_all
  define lo where "lo = fst (optimal_temp_range ti)"
  define hi where "hi = snd (optimal_temp_range ti)"
  have eq: "te = (if lo \<le> t \<and> t \<le> hi then 1
          else if t < temp_threshold (cold (car_tire_data c))
               then 1 - grip_loss (cold (car_tire_data c))
          else if t > temp_threshold (overheated (car_tire_data c))
               then 1 - grip_loss (overheated (car_tire_data c))
          else if t < lo then 1 - ((lo - t) / 20) * 0.05
          else 1 - ((t - hi) / 20) * 0.05)"
    using te ti unfolding calculate_temperature_effect_def t_def lo_def hi_def
    by (simp add: subscript_def Let_def split: if_splits)
  have a: "0 < 1 - ((lo - t) / 20) * 0.05 \<and> 1 - ((lo - t) / 20) * 0.05 \<le> 1" if "t < lo"
    using that win(1) tb unfolding lo_def by simp
  have b: "0 < 1 - ((t - hi) / 20) * 0.05 \<and> 1 - ((t - hi) / 20) * 0.05 \<le> 1" if "\<not> t \<le> hi"
    using that win(2) tb unfolding hi_def by simp
  show ?thesis unfolding eq using a b cl hl by auto
qed

text \<open>
  Claim C5, with the conditions the bounds need.  For a vehicle with its temperature in
  [60, 140] and a lap number from 0 on, whose compound has a base grip above 0, a
  degradation rate that is not negative, grip losses in [0, 1) and an optimal
  temperature window that begins below 460 and ends above -260 degrees: whenever the
  tire performance is computed, the effective grip is base grip * degradation multiplier
  * temperature effect, it is strictly positive and at most the base grip, hence at most
  base grip * 1.05.  It is computed whenever the peak lap count is positive and the life
  span is not 0.
\<close>

theorem effective_grip_bounds:
  assumes temp: "60 \<le> tire_temperature c" "tire_temperature c \<le> 140"
      and ti: "tire_compounds (car_tire_data c) (tire_compound c) = Some ti"
      and grip: "0 < grip_modifier ti"
      and cl: "0 \<le> grip_loss (cold (car_tire_data c))" "grip_loss (cold (car_tire_data c)) < 1"
      and hl: "0 \<le> grip_loss (overheated (car_tire_data c))" "grip_loss (overheated (car_tire_data c)) < 1"
      and rate: "0 \<le> get_default (degradation_rate ti) 0.05"
      and win: "fst (optimal_temp_range ti) < 460" "- 260 < snd (optimal_temp_range ti)"
      and lap: "0 \<le> (case lap_opt of None \<Rightarrow> current_lap c | Some n \<Rightarrow> n)"
  shows "(get_tire_performance c lap_opt = Inr tp \<longrightarrow>
            effective_grip tp = grip_modifier ti * degradation_multiplier tp * temperature_effect tp
          \<and> 0 < effective_grip tp
          \<and> effective_grip tp \<le> grip_modifier ti
          \<and> effective_grip tp \<le> grip_modifier ti * 1.05)
       \<and> (0 < get_default (peak_performance_laps ti) 10 \<and> life_span ti \<noteq> 0 \<longrightarrow>
            (\<exists>r. get_tire_performance c lap_opt = Inr r))"
proof (intro conjI impI)
  define l where "l = (case lap_opt of None \<Rightarrow> current_lap c | Some n \<Rightarrow> n)"
  {
    assume run: "get_tire_performance c lap_opt = Inr tp"
    from run ti obtain d te where
      d: "calculate_tire_degradation l ti = Inr d" and
      te: "calculate_temperature_effect c = Inr te" and
      dm: "degradation_multiplier tp = d" and tm: "temperature_effect tp = te" and
      eg: "effective_grip tp = grip_modifier ti * d * te"
      unfolding get_tire_performance_def l_def Let_def
      by (auto simp: ebind_eq_Inr subscript_def)
    from degradation_positive[OF d] lap rate have db: "0 < d" "d \<le> 1" unfolding l_def by auto
    from temperature_effect_bounds[OF te ti temp cl hl win] have tb: "0 < te" "te \<le> 1" by auto
    have pos: "0 < grip_modifier ti * d * te" using grip db tb by simp
    have "d * te \<le> 1" using db tb by (intro mult_le_one) auto
    then have "grip_modifier ti * (d * te) \<le> grip_modifier ti * 1"
      using grip by (intro mult_left_mono) auto
    then have le: "grip_modifier ti * d * te \<le> grip_modifier ti" by (simp add: mult.assoc)
    have le2: "grip_modifier ti \<le> grip_modifier ti * 1.05" using grip by simp
    show "effective_grip tp = grip_modifier ti * degradation_multiplier tp * temperature_effect tp"
      using eg dm tm by simp
    show "0 < effective_grip tp" using pos eg by simp
    show "effective_grip tp \<le> grip_modifier ti" using le eg by simp
    show "effective_grip tp \<le> grip_modifier ti * 1.05" using le le2 eg by linarith
  }
  {
    assume ok: "0 < get_default (peak_performance_laps ti) 10 \<and> life_span ti \<noteq> 0"
    have "\<exists>d. calculate_tire_degradation l ti = Inr d"
      using ok by (simp add: calculate_tire_degradation_def Let_def true_div_def)
    moreover have "\<exists>te. calculate_temperature_effect c = Inr te"
      using ti by (simp add: calculate_temperature_effect_def subscript_def Let_def)
    ultimately show "\<exists>r. get_tire_performance c lap_opt = Inr r"
      using ti ok unfolding get_tire_performance_def l_def[symmetric] Let_def
      by (auto simp: subscript_def true_div_def)
  }
qed

section \<open>Fuel penalty\<close>

text \<open>
  Claim C6.  For a fuel mass f of at least 0 and a track length L above 0 the fuel time
  penalty is f * (L / 1000) * 0.035; for this L it grows strictly with the fuel mass,
  doubling the fuel mass doubles it, and the penalties at 110 kg and at 20 kg on a track of
  5000 m are in the ratio 5.5.
\<close>

theorem fuel_penalty_linear:
  assumes "0 \<le> f" and "0 < L"
  shows "fuel_weight_to_lap_time f L = f * (L / 1000) * 0.035
       \<and> (\<forall>g. f < g \<longrightarrow> fuel_weight_to_lap_time f L < fuel_weight_to_lap_time g L)
       \<and> fuel_weight_to_lap_time (2 * f) L = 2 * fuel_weight_to_lap_time f L
       \<and> fuel_weight_to_lap_time 110 5000 / fuel_weight_to_lap_time 20 5000 = 5.5"
  using assms by (auto simp: fuel_weight_to_lap_time_def Let_def)

section \<open>Tire state\<close>

text \<open>
  Claim C10.  For a vehicle with its temperature in [60, 140], every lap number n and
  every sector category other than low\_speed, medium\_speed and high\_speed, updating the
  tire state sets the current lap to n and leaves the temperature as it was.  The update
  is a total function: it has no error result.
\<close>

theorem update_tire_state_unknown_category:
  assumes "60 \<le> tire_temperature c" "tire_temperature c \<le> 140"
      and "stype \<notin> {''low_speed'', ''medium_speed'', ''high_speed''}"
  shows "current_lap (update_tire_state c n stype) = n
       \<and> tire_temperature (update_tire_state c n stype) = tire_temperature c"
  using assms by (simp add: update_tire_state_def temp_changes_def Let_def)

subsection \<open>The car after a sector, a lap, a stint\<close>

lemma update_tire_state_temperature:
  "60 \<le> tire_temperature (update_tire_state v n stype) \<and> tire_temperature (update_tire_state v n stype) \<le> 140"
  by (simp add: update_tire_state_def Let_def)

lemma update_tire_state_fields:
  "tire_compound (update_tire_state v n stype) = tire_compound v"
  "fuel_load (update_tire_state v n stype) = fuel_load v"
  "current_lap (update_tire_state v n stype) = n"
  by (simp_all add: update_tire_state_def Let_def)

lemma random_steps_position:
  "p \<le> snd (snd (random_steps var m d p t mods)) \<and> snd (snd (random_steps var m d p t mods)) \<le> p + 3"
  by (simp add: random_steps_def random_uniform_def random_random_def Let_def)

lemma random_steps_agree:
  assumes "d1 p = d2 p" "d1 (Suc p) = d2 (Suc p)" "d1 (Suc (Suc p)) = d2 (Suc (Suc p))"
  shows "random_steps var m d1 p t mods = random_steps var m d2 p t mods"
  using assms by (simp add: random_steps_def random_uniform_def random_random_def Let_def)

lemma calculate_sector_time_sim:
  assumes "calculate_sector_time sim draws p n lap = Inr (r, sim', p')"
  shows "\<exists>stype. sim' = sim\<lparr> sim_car := update_tire_state (sim_car sim) lap stype \<rparr>"
    and "p \<le> p' \<and> p' \<le> p + 3"
  using assms random_steps_position unfolding calculate_sector_time_def Let_def
  by (auto simp: ebind_eq_Inr case_prod_beta split: option.splits)



lemma lap_loop_car:
  "lap_loop sim draws p lap ns = Inr (rs, sim', p') \<Longrightarrow>
     \<exists>v. sim' = sim\<lparr> sim_car := v \<rparr>
        \<and> tire_compound v = tire_compound (sim_car sim)
        \<and> fuel_load v = fuel_load (sim_car sim)
        \<and> (temp_ok (sim_car sim) \<longrightarrow> temp_ok v)"
proof (induction ns arbitrary: sim p rs)
  case Nil
  then show ?case by (auto intro: exI[of _ "sim_car sim"])
next
  case (Cons n ns)
  from Cons.prems obtain r sim1 p1 rs1 where
    st: "calculate_sector_time sim draws p n lap = Inr (r, sim1, p1)" and
    rest: "lap_loop sim1 draws p1 lap ns = Inr (rs1, sim', p')"
    by (auto simp: ebind_eq_Inr)
  from calculate_sector_time_sim(1)[OF st] obtain stype where
    s1: "sim1 = sim\<lparr> sim_car := update_tire_state (sim_car sim) lap stype \<rparr>" by blast
  from Cons.IH[OF rest] obtain v where
    v: "sim' = sim1\<lparr> sim_car := v \<rparr>" "tire_compound v = tire_compound (sim_car sim1)"
       "fuel_load v = fuel_load (sim_car sim1)" "temp_ok (sim_car sim1) \<longrightarrow> temp_ok v"
    by blast
  have "temp_ok (sim_car sim1)"
    unfolding s1 temp_ok_def using update_tire_state_temperature by simp
  with v s1 show ?case
    by (intro exI[of _ v]) (simp add: update_tire_state_fields)
qed

lemma simulate_full_lap_sim:
  assumes "simulate_full_lap sim draws p lap = Inr (lr, sim', p')"
  shows "\<exists>rs. lap_loop sim draws p lap [1 .. int (get_total_sectors (sim_circuit sim))] = Inr (rs, sim', p')
            \<and> lap_number lr = lap
            \<and> cond_tire_compound (lap_conditions lr) = tire_compound (sim_car sim')
            \<and> cond_fuel_load (lap_conditions lr) = fuel_load (sim_car sim')"
  using assms unfolding simulate_full_lap_def Let_def
  by (auto simp: ebind_eq_Inr)

lemma stint_loop_car:
  "stint_loop sim draws p lap k = Inr (lrs, sim', p') \<Longrightarrow> temp_ok (sim_car sim) \<Longrightarrow> temp_ok (sim_car sim')"
proof (induction k arbitrary: sim p lap lrs)
  case 0
  then show ?case by simp
next
  case (Suc k)
  from Suc.prems(1) obtain r sim1 p1 rs1 where
    lp: "simulate_full_lap sim draws p lap = Inr (r, sim1, p1)" and
    rest: "stint_loop (sim1\<lparr> sim_car := (sim_car sim1)\<lparr> current_lap := lap \<rparr> \<rparr>) draws p1 (lap + 1) k
             = Inr (rs1, sim', p')"
    by (auto simp: ebind_eq_Inr Let_def)
  from simulate_full_lap_sim[OF lp] lap_loop_car Suc.prems(2) have "temp_ok (sim_car sim1)"
    by fastforce
  then have "temp_ok (sim_car (sim1\<lparr> sim_car := (sim_car sim1)\<lparr> current_lap := lap \<rparr> \<rparr>))"
    by (simp add: temp_ok_def)
  from Suc.IH[OF rest this] show ?case .
qed

text \<open>
  Claim C9.  Every reachable vehicle state has its tire temperature in [60, 140].  The
  temperature is 90 after construction; \<^verbatim>\<open>update_tire_state\<close> moves it by -2 after a
  low-speed sector, by 0 after a medium-speed one, by +3 after a high-speed one, and
  clamps it to [60, 140]; the setup and the assignment of the lap number leave it alone.
\<close>

theorem tire_temperature_invariant:
  "(reachable_car v \<longrightarrow> 60 \<le> tire_temperature v \<and> tire_temperature v \<le> 140)
   \<and> (Car_init td cmp fuel = Inr v0 \<longrightarrow> tire_temperature v0 = 90)
   \<and> tire_temperature (update_tire_state v n ''low_speed'') = max 60 (min 140 (tire_temperature v - 2))
   \<and> tire_temperature (update_tire_state v n ''medium_speed'') = max 60 (min 140 (tire_temperature v))
   \<and> tire_temperature (update_tire_state v n ''high_speed'') = max 60 (min 140 (tire_temperature v + 3))
   \<and> (set_setup v d em ers = Inr v' \<longrightarrow> tire_temperature v' = tire_temperature v)
   \<and> tire_temperature (v\<lparr> current_lap := n \<rparr>) = tire_temperature v"
proof -
  have inv: "temp_ok v" if "reachable_car v"
    using that
  proof (induction rule: reachable_car.induct)
    case (constructed td cmp fuel v)
    then show ?case by (auto simp: Car_init_def temp_ok_def split: if_splits)
  next
    case (configured v d em ers v')
    then show ?case by (auto simp: set_setup_def temp_ok_def split: if_splits)
  next
    case (tire_update v n stype)
    show ?case unfolding temp_ok_def using update_tire_state_temperature by simp
  next
    case (lap_assigned v n)
    then show ?case by (simp add: temp_ok_def)
  next
    case (sector_run sim draws p n lap r sim' p')
    from calculate_sector_time_sim(1)[OF sector_run.hyps(2)] show ?case
      unfolding temp_ok_def using update_tire_state_temperature by auto
  next
    case (lap_run sim draws p lap lr sim' p')
    from simulate_full_lap_sim[OF lap_run.hyps(2)] lap_loop_car lap_run.IH show ?case
      by fastforce
  next
    case (stint_run sim draws p k lap lrs sim' p')
    then show ?case unfolding simulate_stint_def using stint_loop_car by blast
  qed
  have c0: "Car_init td cmp fuel = Inr v0 \<longrightarrow> tire_temperature v0 = 90"
    by (auto simp: Car_init_def split: if_splits)
  have st: "set_setup v d em ers = Inr v' \<longrightarrow> tire_temperature v' = tire_temperature v"
    by (auto simp: set_setup_def split: if_splits)
  show ?thesis
    using inv c0 st by (simp add: temp_ok_def update_tire_state_def temp_changes_def Let_def)
qed

subsection \<open>The warnings of a lap\<close>

text \<open>
  Every sector of a lap has the same warning list, so the set of warnings of a lap has at
  most one element and its order as a list is determined.
\<close>

lemma calculate_sector_time_warnings:
  assumes "calculate_sector_time sim draws p n lap = Inr (r, sim', p')"
  shows "sr_warnings r = suboptimal_warning sim"
  using assms unfolding calculate_sector_time_def Let_def
  by (auto simp: ebind_eq_Inr case_prod_beta suboptimal_warning_def apply_weather_effect_def
        update_tire_state_fields Let_def split: option.splits if_splits)

lemma lap_loop_warnings:
  "lap_loop sim draws p lap ns = Inr (rs, sim', p') \<Longrightarrow>
     \<forall>r \<in> set rs. sr_warnings r = suboptimal_warning sim"
proof (induction ns arbitrary: sim p rs)
  case Nil
  then show ?case by simp
next
  case (Cons n ns)
  from Cons.prems obtain r sim1 p1 rs1 where
    st: "calculate_sector_time sim draws p n lap = Inr (r, sim1, p1)" and
    rest: "lap_loop sim1 draws p1 lap ns = Inr (rs1, sim', p')" and
    rs: "rs = r # rs1"
    by (auto simp: ebind_eq_Inr)
  from calculate_sector_time_sim(1)[OF st] have "suboptimal_warning sim1 = suboptimal_warning sim"
    by (auto simp: suboptimal_warning_def update_tire_state_fields)
  with Cons.IH[OF rest] calculate_sector_time_warnings[OF st] rs show ?case by simp
qed

lemma remdups_single:
  assumes "\<forall>r \<in> set rs. f r = w" and "length w \<le> 1"
  shows "length (remdups (concat (map f rs))) \<le> 1"
proof -
  have "set (concat (map f rs)) \<subseteq> set w" using assms(1) by auto
  then have "card (set (concat (map f rs))) \<le> card (set w)"
    by (intro card_mono) auto
  also have "\<dots> \<le> length w" by (rule card_length)
  finally show ?thesis using assms(2) by (simp add: length_remdups_card_conv)
qed

lemma lap_warnings_single:
  assumes "simulate_full_lap sim draws p lap = Inr (lr, sim', p')"
  shows "length (warnings lr) \<le> 1"
proof -
  from assms obtain rs where
    ll: "lap_loop sim draws p lap [1 .. int (get_total_sectors (sim_circuit sim))] = Inr (rs, sim', p')" and
    w: "warnings lr = remdups (concat (map sr_warnings rs))"
    unfolding simulate_full_lap_def Let_def by (auto simp: ebind_eq_Inr)
  have "length (suboptimal_warning sim) \<le> 1" by (simp add: suboptimal_warning_def)
  with lap_loop_warnings[OF ll] show ?thesis unfolding w by (rule remdups_single)
qed

section \<open>Replay of a lap\<close>

lemma calculate_sector_time_agree:
  assumes "\<forall>i<3. d1 (p + i) = d2 (p + i)"
  shows "calculate_sector_time sim d1 p n lap = calculate_sector_time sim d2 p n lap"
proof -
  have "d1 p = d2 p" "d1 (Suc p) = d2 (Suc p)" "d1 (Suc (Suc p)) = d2 (Suc (Suc p))"
    using assms[rule_format, of 0] assms[rule_format, of 1] assms[rule_format, of 2] by simp_all
  then have eq: "\<And>var m t mods. random_steps var m d1 p t mods = random_steps var m d2 p t mods"
    by (rule random_steps_agree)
  show ?thesis unfolding calculate_sector_time_def by (simp only: eq)
qed

lemma lap_loop_agree:
  "\<forall>i < 3 * length ns. d1 (p + i) = d2 (p + i) \<Longrightarrow>
     lap_loop sim d1 p lap ns = lap_loop sim d2 p lap ns"
proof (induction ns arbitrary: sim p)
  case Nil
  show ?case by simp
next
  case (Cons n ns)
  have first: "calculate_sector_time sim d1 p n lap = calculate_sector_time sim d2 p n lap"
    using Cons.prems by (intro calculate_sector_time_agree) auto
  show ?case
  proof (cases "calculate_sector_time sim d2 p n lap")
    case (Inl e)
    then show ?thesis using first by simp
  next
    case (Inr x)
    obtain r sim1 p1 where x: "x = (r, sim1, p1)" by (cases x) auto
    from calculate_sector_time_sim(2)[OF Inr[unfolded x]] have bounds: "p \<le> p1" "p1 \<le> p + 3"
      by auto
    have "\<forall>i < 3 * length ns. d1 (p1 + i) = d2 (p1 + i)"
    proof (intro allI impI)
      fix i assume "i < 3 * length ns"
      then have "p1 + i - p < 3 * length (n # ns)" using bounds by simp
      from Cons.prems[rule_format, OF this] show "d1 (p1 + i) = d2 (p1 + i)"
        using bounds by simp
    qed
    from Cons.IH[OF this] show ?thesis using first Inr x by simp
  qed
qed

text \<open>
  Claim C3.  A lap is a function of the simulator (track, vehicle, conditions), the lap
  number and the draws of the random source: two evaluations from the same simulator
  state whose random sources give the same draws, at most three for each sector, have the
  same outcome, that is the same lap result (total time, sector times, warnings,
  statistics), the same vehicle afterwards and the same position in the random sequence,
  or the same error.
\<close>

theorem lap_replay_identical:
  assumes "\<forall>i < 3 * get_total_sectors (sim_circuit sim). d1 (p + i) = d2 (p + i)"
  shows "simulate_full_lap sim d1 p lap = simulate_full_lap sim d2 p lap"
proof -
  have "length [1 .. int (get_total_sectors (sim_circuit sim))] = get_total_sectors (sim_circuit sim)"
    by simp
  with assms have "lap_loop sim d1 p lap [1 .. int (get_total_sectors (sim_circuit sim))]
      = lap_loop sim d2 p lap [1 .. int (get_total_sectors (sim_circuit sim))]"
    by (intro lap_loop_agree) simp
  then show ?thesis unfolding simulate_full_lap_def by simp
qed

section \<open>Configuration comparison\<close>

lemma evaluate_configuration_result:
  assumes "evaluate_configuration td wd sim draws p i cfg = Inr (x, p1)"
  shows "config_index x = i \<and> configuration x = cfg \<and> lap_number (cr_lap x) = 1
       \<and> cond_tire_compound (lap_conditions (cr_lap x)) = get_default (cfg_tire cfg) ''medium''
       \<and> cond_fuel_load (lap_conditions (cr_lap x)) = get_default (cfg_fuel cfg) 50"
proof -
  from assms obtain c0 c1 s0 s1 s2 lr s3 where
    c0: "Car_init td (get_default (cfg_tire cfg) ''medium'') (get_default (cfg_fuel cfg) 50) = Inr c0" and
    c1: "(if has_key (cfg_downforce cfg) \<or> has_key (cfg_engine_mode cfg) \<or> has_key (cfg_ers cfg)
          then set_setup c0 (get_default (cfg_downforce cfg) 5)
                 (get_default (cfg_engine_mode cfg) ''race'') (get_default (cfg_ers cfg) ''auto'')
          else Inr c0) = Inr c1" and
    s0: "LapSimulator_init wd (sim_circuit sim) c1 (weather sim) = Inr s0" and
    s1: "set_driver_parameters s0 (driver_aggression sim) (use_drs sim) = Inr s1" and
    s2: "set_track_condition s1 (track_condition sim) = Inr s2" and
    lr: "simulate_full_lap s2 draws p 1 = Inr (lr, s3, p1)" and
    x: "x = \<lparr> cr_lap = lr, configuration = cfg, config_index = i \<rparr>"
    unfolding evaluate_configuration_def by (auto simp: ebind_eq_Inr)
  have f0: "tire_compound c0 = get_default (cfg_tire cfg) ''medium''"
           "fuel_load c0 = get_default (cfg_fuel cfg) 50"
    using c0 by (auto simp: Car_init_def split: if_splits)
  have f1: "tire_compound c1 = tire_compound c0" "fuel_load c1 = fuel_load c0"
    using c1 by (auto simp: set_setup_def split: if_splits)
  have f2: "sim_car s2 = c1"
    using s0 s1 s2
    by (auto simp: LapSimulator_init_def set_driver_parameters_def set_track_condition_def
             split: option.splits if_splits)
  from simulate_full_lap_sim[OF lr] obtain rs where
    ll: "lap_loop s2 draws p 1 [1 .. int (get_total_sectors (sim_circuit s2))] = Inr (rs, s3, p1)" and
    ln: "lap_number lr = 1" and
    ct: "cond_tire_compound (lap_conditions lr) = tire_compound (sim_car s3)" and
    cf: "cond_fuel_load (lap_conditions lr) = fuel_load (sim_car s3)"
    by blast
  from lap_loop_car[OF ll] have "tire_compound (sim_car s3) = tire_compound (sim_car s2)"
      "fuel_load (sim_car s3) = fuel_load (sim_car s2)"
    by auto
  with x ln ct cf f0 f1 f2 show ?thesis by simp
qed

lemma compare_loop_result:
  "compare_loop td wd sim draws p i cfgs = Inr (rs, p') \<Longrightarrow>
     map config_index rs = [i ..< i + length cfgs] \<and> map configuration rs = cfgs
     \<and> (\<forall>x \<in> set rs. lap_number (cr_lap x) = 1
           \<and> cond_tire_compound (lap_conditions (cr_lap x)) = get_default (cfg_tire (configuration x)) ''medium''
           \<and> cond_fuel_load (lap_conditions (cr_lap x)) = get_default (cfg_fuel (configuration x)) 50)"
proof (induction cfgs arbitrary: p i rs)
  case Nil
  then show ?case by simp
next
  case (Cons cfg cfgs)
  from Cons.prems obtain x p1 rs1 where
    ev: "evaluate_configuration td wd sim draws p i cfg = Inr (x, p1)" and
    rest: "compare_loop td wd sim draws p1 (Suc i) cfgs = Inr (rs1, p')" and
    rs: "rs = x # rs1"
    by (auto simp: ebind_eq_Inr)
  note h = evaluate_configuration_result[OF ev] Cons.IH[OF rest]
  have "[i ..< i + length (cfg # cfgs)] = i # [Suc i ..< Suc i + length cfgs]"
    by (subst upt_rec) simp
  with h rs show ?case by simp
qed

lemma evaluate_configuration_car:
  "evaluate_configuration td wd (sim\<lparr> sim_car := v \<rparr>) draws p i cfg
     = evaluate_configuration td wd sim draws p i cfg"
  by (simp add: evaluate_configuration_def)

lemma compare_loop_car:
  "compare_loop td wd (sim\<lparr> sim_car := v \<rparr>) draws p i cfgs = compare_loop td wd sim draws p i cfgs"
proof (induction cfgs arbitrary: p i)
  case Nil
  show ?case by simp
next
  case (Cons cfg cfgs)
  show ?case by (simp add: evaluate_configuration_car Cons.IH)
qed

lemma compare_loop_total:
  "(\<forall>cfg \<in> set cfgs. \<forall>q j. \<not> isl (evaluate_configuration td wd sim draws q j cfg)) \<Longrightarrow>
     \<not> isl (compare_loop td wd sim draws p i cfgs)"
proof (induction cfgs arbitrary: p i)
  case Nil
  show ?case by simp
next
  case (Cons c cfgs)
  from Cons.prems have "\<not> isl (evaluate_configuration td wd sim draws p i c)" by simp
  then obtain x p1 where ev: "evaluate_configuration td wd sim draws p i c = Inr (x, p1)"
    by (cases "evaluate_configuration td wd sim draws p i c") auto
  from Cons.prems have "\<forall>cfg \<in> set cfgs. \<forall>q j. \<not> isl (evaluate_configuration td wd sim draws q j cfg)"
    by simp
  from Cons.IH[OF this, of p1 "Suc i"] obtain rs p2 where
    "compare_loop td wd sim draws p1 (Suc i) cfgs = Inr (rs, p2)"
    by (cases "compare_loop td wd sim draws p1 (Suc i) cfgs") auto
  with ev show ?case by simp
qed

text \<open>
  Claim C7, for the runs of the comparison that return.  The returned list has the length
  of the input, is sorted by total time, non-decreasing, and candidates with the same
  total time are in input order.  Every entry is the lap with lap number 1 of a vehicle
  constructed from the tire and fuel of its own candidate, and the vehicle of the
  comparing simulator plays no part in the outcome.  The comparison returns whenever the
  evaluation of every candidate does; it raises when a candidate fails validation.
\<close>

theorem compare_configurations_sorted:
  "(compare_configurations td wd sim draws p cfgs = Inr (res, p') \<longrightarrow>
       length res = length cfgs
     \<and> sorted (map (\<lambda>x. total_time (cr_lap x)) res)
     \<and> (\<forall>t. sorted_wrt (<) (map config_index (filter (\<lambda>x. total_time (cr_lap x) = t) res)))
     \<and> (\<forall>x \<in> set res. config_index x < length cfgs
           \<and> configuration x = cfgs ! config_index x
           \<and> lap_number (cr_lap x) = 1
           \<and> cond_tire_compound (lap_conditions (cr_lap x)) = get_default (cfg_tire (configuration x)) ''medium''
           \<and> cond_fuel_load (lap_conditions (cr_lap x)) = get_default (cfg_fuel (configuration x)) 50))
   \<and> (\<forall>v. compare_configurations td wd (sim\<lparr> sim_car := v \<rparr>) draws p cfgs
            = compare_configurations td wd sim draws p cfgs)
   \<and> ((\<forall>cfg \<in> set cfgs. \<forall>q j. \<not> isl (evaluate_configuration td wd sim draws q j cfg)) \<longrightarrow>
        \<not> isl (compare_configurations td wd sim draws p cfgs))"
proof (intro conjI impI allI)
  assume run: "compare_configurations td wd sim draws p cfgs = Inr (res, p')"
  then obtain rs where
    loop: "compare_loop td wd sim draws p 0 cfgs = Inr (rs, p')" and
    res: "res = sort_key (\<lambda>x. total_time (cr_lap x)) rs"
    unfolding compare_configurations_def by (auto simp: ebind_eq_Inr)
  from compare_loop_result[OF loop] have
    idx: "map config_index rs = [0 ..< length cfgs]" and
    cfg: "map configuration rs = cfgs" and
    each: "\<forall>x \<in> set rs. lap_number (cr_lap x) = 1
           \<and> cond_tire_compound (lap_conditions (cr_lap x)) = get_default (cfg_tire (configuration x)) ''medium''
           \<and> cond_fuel_load (lap_conditions (cr_lap x)) = get_default (cfg_fuel (configuration x)) 50"
    by simp_all
  have len: "length rs = length cfgs" using cfg by (metis length_map)
  show "length res = length cfgs" using res len by simp
  show "sorted (map (\<lambda>x. total_time (cr_lap x)) res)" using res by simp
  show "sorted_wrt (<) (map config_index (filter (\<lambda>x. total_time (cr_lap x) = t) res))" for t
  proof -
    have "filter (\<lambda>x. total_time (cr_lap x) = t) res = filter (\<lambda>x. total_time (cr_lap x) = t) rs"
      unfolding res by (rule sort_key_stable)
    moreover have "sorted_wrt (<) (map config_index rs)" unfolding idx by simp
    then have "sorted_wrt (\<lambda>a b. config_index a < config_index b) rs"
      by (simp add: sorted_wrt_map)
    then have "sorted_wrt (\<lambda>a b. config_index a < config_index b) (filter (\<lambda>x. total_time (cr_lap x) = t) rs)"
      by (rule sorted_wrt_filter)
    ultimately show ?thesis by (simp add: sorted_wrt_map)
  qed
  have mem: "config_index x < length cfgs \<and> configuration x = cfgs ! config_index x" if "x \<in> set rs" for x
  proof -
    from that obtain k where k: "k < length rs" "rs ! k = x" by (auto simp: in_set_conv_nth)
    have "config_index x = map config_index rs ! k" using k by simp
    also have "\<dots> = k" unfolding idx using k len by simp
    finally have ik: "config_index x = k" .
    have "configuration x = map configuration rs ! k" using k by simp
    then have "configuration x = cfgs ! k" unfolding cfg .
    with ik k len show ?thesis by simp
  qed
  have set_eq: "set res = set rs" unfolding res by simp
  show "\<forall>x \<in> set res. config_index x < length cfgs
           \<and> configuration x = cfgs ! config_index x
           \<and> lap_number (cr_lap x) = 1
           \<and> cond_tire_compound (lap_conditions (cr_lap x)) = get_default (cfg_tire (configuration x)) ''medium''
           \<and> cond_fuel_load (lap_conditions (cr_lap x)) = get_default (cfg_fuel (configuration x)) 50"
    unfolding set_eq using mem each by blast
next
  show "compare_configurations td wd (sim\<lparr> sim_car := v \<rparr>) draws p cfgs
                = compare_configurations td wd sim draws p cfgs" for v
    by (simp add: compare_configurations_def compare_loop_car)
next
  assume "\<forall>cfg \<in> set cfgs. \<forall>q j. \<not> isl (evaluate_configuration td wd sim draws q j cfg)"
  from compare_loop_total[OF this, of p 0] show "\<not> isl (compare_configurations td wd sim draws p cfgs)"
    by (cases "compare_loop td wd sim draws p 0 cfgs")
       (simp_all add: compare_configurations_def case_prod_beta)
qed

section \<open>Validation\<close>

lemma evaluate_configuration_invalid:
  assumes "tire_compounds td (get_default (cfg_tire cfg) ''medium'') = None
         \<or> get_default (cfg_fuel cfg) 50 < 0 \<or> 110 < get_default (cfg_fuel cfg) 50
         \<or> (cfg_downforce cfg = Some dd \<and> (dd < 1 \<or> 10 < dd))
         \<or> (cfg_engine_mode cfg = Some m \<and> m \<notin> {''quali'', ''race'', ''conservation''})
         \<or> (cfg_ers cfg = Some e \<and> e \<notin> {''auto'', ''aggressive'', ''conservative''})"
  shows "evaluate_configuration td wd sim draws q j cfg = Inl ValueError"
proof (cases "Car_init td (get_default (cfg_tire cfg) ''medium'') (get_default (cfg_fuel cfg) 50)")
  case (Inl err)
  then have "err = ValueError" by (auto simp: Car_init_def split: if_splits)
  with Inl show ?thesis by (simp add: evaluate_configuration_def)
next
  case (Inr c0)
  then have ok: "tire_compounds td (get_default (cfg_tire cfg) ''medium'') \<noteq> None"
     "0 \<le> get_default (cfg_fuel cfg) 50" "get_default (cfg_fuel cfg) 50 \<le> 110"
    by (auto simp: Car_init_def split: if_splits)
  with assms have bad: "(cfg_downforce cfg = Some dd \<and> (dd < 1 \<or> 10 < dd))
         \<or> (cfg_engine_mode cfg = Some m \<and> m \<notin> {''quali'', ''race'', ''conservation''})
         \<or> (cfg_ers cfg = Some e \<and> e \<notin> {''auto'', ''aggressive'', ''conservative''})"
    by auto
  then have "has_key (cfg_downforce cfg) \<or> has_key (cfg_engine_mode cfg) \<or> has_key (cfg_ers cfg)"
    by (auto simp: has_key_def)
  moreover from bad have "set_setup c0 (get_default (cfg_downforce cfg) 5)
                 (get_default (cfg_engine_mode cfg) ''race'') (get_default (cfg_ers cfg) ''auto'') = Inl ValueError"
    by (auto simp: set_setup_def get_default_def valid_engine_modes_def valid_ers_modes_def)
  ultimately show ?thesis using Inr by (simp add: evaluate_configuration_def)
qed

lemma compare_loop_invalid:
  assumes "cfg \<in> set cfgs" and "\<And>q j. evaluate_configuration td wd sim draws q j cfg = Inl ValueError"
  shows "isl (compare_loop td wd sim draws p i cfgs)"
  using assms(1)
proof (induction cfgs arbitrary: p i)
  case Nil
  then show ?case by simp
next
  case (Cons c cfgs)
  show ?case
  proof (cases "evaluate_configuration td wd sim draws p i c")
    case (Inl err)
    then show ?thesis by simp
  next
    case (Inr y)
    obtain x p1 where y: "y = (x, p1)" by (cases y)
    have "c \<noteq> cfg" using Inr assms(2)[of p i] by auto
    with Cons.prems have "cfg \<in> set cfgs" by auto
    from Cons.IH[OF this, of p1 "Suc i"] show ?thesis
      using Inr y by (cases "compare_loop td wd sim draws p1 (Suc i) cfgs") auto
  qed
qed

text \<open>
  Claim C8.  An unknown circuit, compound, weather or track-condition name, a fuel mass
  outside [0, 110], a downforce outside [1, 10], an engine or energy mode outside the
  enumerated sets and an aggression outside [0, 1] each give the error result
  \<open>ValueError\<close> and no object.  No caller inside the engine catches it: a comparison with
  such a candidate has an error result.
\<close>

theorem invalid_inputs_rejected:
  "(circuits nm = None \<longrightarrow> Circuit_init circuits nm = Inl ValueError)
 \<and> (tire_compounds td cmp = None \<longrightarrow> Car_init td cmp fuel = Inl ValueError)
 \<and> (fuel < 0 \<or> 110 < fuel \<longrightarrow> Car_init td cmp fuel = Inl ValueError)
 \<and> (weather_conditions wd w = None \<longrightarrow> LapSimulator_init wd c v w = Inl ValueError)
 \<and> (track_conditions (weather_data sim) tc = None \<longrightarrow> set_track_condition sim tc = Inl ValueError)
 \<and> (d < 1 \<or> 10 < d \<longrightarrow> set_setup v d em ers = Inl ValueError)
 \<and> (em \<notin> {''quali'', ''race'', ''conservation''} \<longrightarrow> set_setup v d em ers = Inl ValueError)
 \<and> (ers \<notin> {''auto'', ''aggressive'', ''conservative''} \<longrightarrow> set_setup v d em ers = Inl ValueError)
 \<and> (a < 0 \<or> 1 < a \<longrightarrow> set_driver_parameters sim a drs = Inl ValueError)
 \<and> (cfg \<in> set cfgs \<and>
      (tire_compounds td (get_default (cfg_tire cfg) ''medium'') = None
         \<or> get_default (cfg_fuel cfg) 50 < 0 \<or> 110 < get_default (cfg_fuel cfg) 50
         \<or> (cfg_downforce cfg = Some dd \<and> (dd < 1 \<or> 10 < dd))
         \<or> (cfg_engine_mode cfg = Some m \<and> m \<notin> {''quali'', ''race'', ''conservation''})
         \<or> (cfg_ers cfg = Some e \<and> e \<notin> {''auto'', ''aggressive'', ''conservative''}))
      \<longrightarrow> isl (compare_configurations td wd sim draws p cfgs))"
proof -
  have c1: "circuits nm = None \<longrightarrow> Circuit_init circuits nm = Inl ValueError"
    by (simp add: Circuit_init_def)
  have c2: "tire_compounds td cmp = None \<longrightarrow> Car_init td cmp fuel = Inl ValueError"
    by (simp add: Car_init_def)
  have c3: "fuel < 0 \<or> 110 < fuel \<longrightarrow> Car_init td cmp fuel = Inl ValueError"
    by (auto simp: Car_init_def)
  have c4: "weather_conditions wd w = None \<longrightarrow> LapSimulator_init wd c v w = Inl ValueError"
    by (simp add: LapSimulator_init_def)
  have c5: "track_conditions (weather_data sim) tc = None \<longrightarrow> set_track_condition sim tc = Inl ValueError"
    by (simp add: set_track_condition_def)
  have c6: "d < 1 \<or> 10 < d \<longrightarrow> set_setup v d em ers = Inl ValueError"
    by (auto simp: set_setup_def)
  have c7: "em \<notin> {''quali'', ''race'', ''conservation''} \<longrightarrow> set_setup v d em ers = Inl ValueError"
    by (auto simp: set_setup_def valid_engine_modes_def)
  have c8: "ers \<notin> {''auto'', ''aggressive'', ''conservative''} \<longrightarrow> set_setup v d em ers = Inl ValueError"
    by (auto simp: set_setup_def valid_ers_modes_def)
  have c9: "a < 0 \<or> 1 < a \<longrightarrow> set_driver_parameters sim a drs = Inl ValueError"
    by (auto simp: set_driver_parameters_def)
  have c10: "cfg \<in> set cfgs \<and>
      (tire_compounds td (get_default (cfg_tire cfg) ''medium'') = None
         \<or> get_default (cfg_fuel cfg) 50 < 0 \<or> 110 < get_default (cfg_fuel cfg) 50
         \<or> (cfg_downforce cfg = Some dd \<and> (dd < 1 \<or> 10 < dd))
         \<or> (cfg_engine_mode cfg = Some m \<and> m \<notin> {''quali'', ''race'', ''conservation''})
         \<or> (cfg_ers cfg = Some e \<and> e \<notin> {''auto'', ''aggressive'', ''conservative''}))
      \<longrightarrow> isl (compare_configurations td wd sim draws p cfgs)"
  proof (intro impI, elim conjE)
    assume mem: "cfg \<in> set cfgs" and bad: "tire_compounds td (get_default (cfg_tire cfg) ''medium'') = None
         \<or> get_default (cfg_fuel cfg) 50 < 0 \<or> 110 < get_default (cfg_fuel cfg) 50
         \<or> (cfg_downforce cfg = Some dd \<and> (dd < 1 \<or> 10 < dd))
         \<or> (cfg_engine_mode cfg = Some m \<and> m \<notin> {''quali'', ''race'', ''conservation''})
         \<or> (cfg_ers cfg = Some e \<and> e \<notin> {''auto'', ''aggressive'', ''conservative''})"
    have "isl (compare_loop td wd sim draws p 0 cfgs)"
      using mem evaluate_configuration_invalid[OF bad] by (rule compare_loop_invalid)
    then show "isl (compare_configurations td wd sim draws p cfgs)"
      by (cases "compare_loop td wd sim draws p 0 cfgs") (simp_all add: compare_configurations_def)
  qed
  show ?thesis by (intro conjI c1 c2 c3 c4 c5 c6 c7 c8 c9 c10)
qed

section \<open>The properties at the sample data\<close>

theorem tire_degradation_curve_witness:
  "(1::real) \<le> get_default (peak_performance_laps sample_medium) 10
   \<and> (0::real) \<le> get_default (degradation_rate sample_medium) 0.05
   \<and> calculate_tire_degradation 5 sample_medium = Inr (39 / 40)
   \<and> (\<exists>d. calculate_tire_degradation 15 sample_medium = Inr d \<and> d \<le> 1 \<and> 0.7 \<le> d
         \<and> (\<exists>d'. calculate_tire_degradation 20 sample_medium = Inr d' \<and> d' \<le> d))"
proof -
  have pk: "get_default (peak_performance_laps sample_medium) 10 = 10"
    by (simp add: sample_medium_def get_default_def)
  have h1: "(1::real) \<le> get_default (peak_performance_laps sample_medium) 10"
    unfolding pk by simp
  have h2: "(0::real) \<le> get_default (degradation_rate sample_medium) 0.05"
    by (simp add: sample_medium_def get_default_def)
  from tire_degradation_curve[OF h1 h2, of 5] obtain d5 where
    d5: "calculate_tire_degradation 5 sample_medium = Inr d5"
        "d5 = min 1 (0.95 + (real_of_int 5 / 10) * 0.05)"
    unfolding pk by auto
  have "d5 = 39 / 40" unfolding d5(2) by simp
  with d5(1) have a: "calculate_tire_degradation 5 sample_medium = Inr (39 / 40)" by simp
  from tire_degradation_curve[OF h1 h2, of 15] obtain d where
    d: "calculate_tire_degradation 15 sample_medium = Inr d" "d \<le> 1" "0.7 \<le> d"
       "\<forall>l'. 15 \<le> l' \<longrightarrow> (\<exists>d'. calculate_tire_degradation l' sample_medium = Inr d' \<and> d' \<le> d)"
    unfolding pk by auto
  from d(4) have "\<exists>d'. calculate_tire_degradation 20 sample_medium = Inr d' \<and> d' \<le> d"
    by simp
  with h1 h2 a d show ?thesis by blast
qed

theorem fuel_penalty_linear_witness:
  "(0::real) \<le> 20 \<and> (0::real) < 5000
   \<and> fuel_weight_to_lap_time 20 5000 = 7 / 2
   \<and> fuel_weight_to_lap_time 20 5000 < fuel_weight_to_lap_time 110 5000
   \<and> fuel_weight_to_lap_time 40 5000 = 2 * fuel_weight_to_lap_time 20 5000"
proof -
  have h1: "(0::real) \<le> 20" and h2: "(0::real) < 5000" by simp_all
  from fuel_penalty_linear[OF h1 h2] show ?thesis by simp
qed

theorem update_tire_state_unknown_category_witness:
  "60 \<le> tire_temperature sample_car \<and> tire_temperature sample_car \<le> 140
   \<and> ''chicane'' \<notin> {''low_speed'', ''medium_speed'', ''high_speed''}
   \<and> current_lap (update_tire_state sample_car 7 ''chicane'') = 7
   \<and> tire_temperature (update_tire_state sample_car 7 ''chicane'') = 90"
proof -
  have h1: "60 \<le> tire_temperature sample_car" and h2: "tire_temperature sample_car \<le> 140"
    by (simp_all add: sample_car_def)
  have h3: "''chicane'' \<notin> {''low_speed'', ''medium_speed'', ''high_speed''}" by simp
  from update_tire_state_unknown_category[OF h1 h2 h3, of 7] h1 h2 h3 show ?thesis
    by (simp add: sample_car_def)
qed

lemma sample_car_constructed: "Car_init sample_tires ''medium'' 50 = Inr sample_car"
  by (simp add: Car_init_def sample_tires_def sample_car_def)

theorem tire_temperature_invariant_witness:
  "reachable_car (update_tire_state sample_car 1 ''high_speed'')
   \<and> tire_temperature (update_tire_state sample_car 1 ''high_speed'') = 93
   \<and> Car_init sample_tires ''medium'' 50 = Inr sample_car
   \<and> tire_temperature sample_car = 90
   \<and> set_setup sample_car 8 ''quali'' ''aggressive''
        = Inr (sample_car\<lparr> downforce_level := 8, engine_mode := ''quali'',
                 ers_deployment := ''aggressive'', drag_coefficient := 59 / 50 \<rparr>)
   \<and> tire_temperature (sample_car\<lparr> downforce_level := 8, engine_mode := ''quali'',
                 ers_deployment := ''aggressive'', drag_coefficient := 59 / 50 \<rparr>) = 90"
proof -
  have r: "reachable_car (update_tire_state sample_car 1 ''high_speed'')"
    by (intro reachable_car.tire_update reachable_car.constructed[OF sample_car_constructed])
  have s: "set_setup sample_car 8 ''quali'' ''aggressive''
        = Inr (sample_car\<lparr> downforce_level := 8, engine_mode := ''quali'',
                 ers_deployment := ''aggressive'', drag_coefficient := 59 / 50 \<rparr>)"
    by (simp add: set_setup_def valid_engine_modes_def valid_ers_modes_def)
  from tire_temperature_invariant[where v = "update_tire_state sample_car 1 ''high_speed''"
      and td = sample_tires and cmp = "''medium''" and fuel = 50 and ?v0.0 = sample_car]
    tire_temperature_invariant[where v = sample_car and d = 8 and em = "''quali''"
      and ers = "''aggressive''"
      and v' = "sample_car\<lparr> downforce_level := 8, engine_mode := ''quali'',
                 ers_deployment := ''aggressive'', drag_coefficient := 59 / 50 \<rparr>"]
    r s sample_car_constructed
  show ?thesis by (simp add: sample_car_def update_tire_state_def temp_changes_def Let_def)
qed

theorem lap_replay_identical_witness:
  "half_draws 0 = other_draws 0 \<and> half_draws 1 = other_draws 1 \<and> half_draws 2 = other_draws 2
   \<and> half_draws 3 \<noteq> other_draws 3
   \<and> simulate_full_lap sample_sim half_draws 0 1 = simulate_full_lap sample_sim other_draws 0 1
   \<and> \<not> isl (simulate_full_lap sample_sim half_draws 0 1)"
proof -
  have n: "get_total_sectors (sim_circuit sample_sim) = 1"
    by (simp add: get_total_sectors_def sample_sim_def scenario_track_def)
  have h: "\<forall>i < 3 * get_total_sectors (sim_circuit sample_sim). half_draws (0 + i) = other_draws (0 + i)"
    unfolding n by (simp add: half_draws_def other_draws_def)
  have run: "\<not> isl (simulate_full_lap sample_sim half_draws 0 1)" by code_simp
  have d: "half_draws 0 = other_draws 0 \<and> half_draws 1 = other_draws 1
       \<and> half_draws 2 = other_draws 2 \<and> half_draws 3 \<noteq> other_draws 3"
    by (simp add: half_draws_def other_draws_def)
  from lap_replay_identical[OF h, of 1] run d show ?thesis by blast
qed

text \<open>
  The evaluation of a lap is itself a mutation of the vehicle: on the hot track the
  temperature is 93 after the first lap, and the same lap evaluated again from the state
  the first one left, with the same draws, is slower.  Replay needs the state the first
  evaluation started from.
\<close>

lemma lap_mutates_vehicle:
  "(case simulate_full_lap hot_sim half_draws 0 1 of
      Inl e \<Rightarrow> False
    | Inr (lr1, sim1, p1) \<Rightarrow>
        tire_temperature (sim_car hot_sim) = 90 \<and> tire_temperature (sim_car sim1) = 93
        \<and> (case simulate_full_lap sim1 half_draws 0 1 of
              Inl e \<Rightarrow> False
            | Inr (lr2, sim2, p2) \<Rightarrow> total_time lr1 < total_time lr2))"
  by code_simp

theorem compare_configurations_sorted_witness:
  "(case compare_configurations sample_tires sample_weather sample_sim half_draws 0 [heavy_config, light_config] of
      Inl e \<Rightarrow> False
    | Inr (res, p') \<Rightarrow> length res = 2 \<and> map config_index res = [1, 0]
        \<and> sorted (map (\<lambda>x. total_time (cr_lap x)) res)
        \<and> map (\<lambda>x. lap_number (cr_lap x)) res = [1, 1])"
proof -
  let ?run = "compare_configurations sample_tires sample_weather sample_sim half_draws 0 [heavy_config, light_config]"
  have "\<not> isl ?run" by code_simp
  then obtain res p' where eq: "?run = Inr (res, p')" by (cases ?run) auto
  have idx: "map config_index (fst (projr ?run)) = [1, 0]" by code_simp
  note th = compare_configurations_sorted[THEN conjunct1, rule_format, OF eq]
  have len: "length res = 2" using th by simp
  have srt: "sorted (map (\<lambda>x. total_time (cr_lap x)) res)" using th by blast
  have laps: "\<forall>x \<in> set res. lap_number (cr_lap x) = 1" using th by blast
  from len obtain a b where ab: "res = [a, b]"
    by (cases res; cases "tl res") auto
  from laps ab have "map (\<lambda>x. lap_number (cr_lap x)) res = [1, 1]" by simp
  with len srt idx eq show ?thesis by simp
qed

theorem invalid_inputs_rejected_witness:
  "sample_circuits ''nowhere'' = None \<and> Circuit_init sample_circuits ''nowhere'' = Inl ValueError
   \<and> tire_compounds sample_tires ''slick'' = None \<and> Car_init sample_tires ''slick'' 50 = Inl ValueError
   \<and> Car_init sample_tires ''medium'' 150 = Inl ValueError
   \<and> weather_conditions sample_weather ''fog'' = None
   \<and> LapSimulator_init sample_weather scenario_track sample_car ''fog'' = Inl ValueError
   \<and> track_conditions (weather_data sample_sim) ''icy'' = None
   \<and> set_track_condition sample_sim ''icy'' = Inl ValueError
   \<and> set_setup sample_car 11 ''race'' ''auto'' = Inl ValueError
   \<and> set_setup sample_car 5 ''party'' ''auto'' = Inl ValueError
   \<and> set_setup sample_car 5 ''race'' ''manual'' = Inl ValueError
   \<and> set_driver_parameters sample_sim (3 / 2) True = Inl ValueError
   \<and> isl (compare_configurations sample_tires sample_weather sample_sim half_draws 0
            [heavy_config, unknown_tire_config])"
proof -
  have h1: "sample_circuits ''nowhere'' = None" by (simp add: sample_circuits_def)
  have h2: "tire_compounds sample_tires ''slick'' = None" by (simp add: sample_tires_def)
  have h4: "weather_conditions sample_weather ''fog'' = None" by (simp add: sample_weather_def)
  have h5: "track_conditions (weather_data sample_sim) ''icy'' = None"
    by (simp add: sample_sim_def sample_weather_def)
  have h10: "unknown_tire_config \<in> set [heavy_config, unknown_tire_config]
     \<and> tire_compounds sample_tires (get_default (cfg_tire unknown_tire_config) ''medium'') = None"
    by (simp add: unknown_tire_config_def get_default_def sample_tires_def)
  from invalid_inputs_rejected[where circuits = sample_circuits and nm = "''nowhere''"
      and td = sample_tires and cmp = "''slick''" and fuel = 50]
    invalid_inputs_rejected[where td = sample_tires and cmp = "''medium''" and fuel = 150
      and wd = sample_weather and w = "''fog''" and c = scenario_track and v = sample_car
      and sim = sample_sim and tc = "''icy''" and d = 11 and em = "''race''" and ers = "''auto''"
      and a = "3 / 2" and drs = True and cfg = unknown_tire_config
      and cfgs = "[heavy_config, unknown_tire_config]" and draws = half_draws and p = 0]
    invalid_inputs_rejected[where v = sample_car and d = 5 and em = "''party''" and ers = "''auto''"]
    invalid_inputs_rejected[where v = sample_car and d = 5 and em = "''race''" and ers = "''manual''"]
    h1 h2 h4 h5 h10
  show ?thesis by simp
qed

theorem effective_grip_bounds_witness:
  "\<not> isl (get_tire_performance sample_car None)
   \<and> 0 < effective_grip (projr (get_tire_performance sample_car None))
   \<and> effective_grip (projr (get_tire_performance sample_car None)) \<le> grip_modifier sample_medium * 1.05"
proof -
  have ti: "tire_compounds (car_tire_data sample_car) (tire_compound sample_car) = Some sample_medium"
    by (simp add: sample_car_def sample_tires_def)
  have h: "60 \<le> tire_temperature sample_car" "tire_temperature sample_car \<le> 140"
     "0 < grip_modifier sample_medium"
     "0 \<le> grip_loss (cold (car_tire_data sample_car))" "grip_loss (cold (car_tire_data sample_car)) < 1"
     "0 \<le> grip_loss (overheated (car_tire_data sample_car))"
     "grip_loss (overheated (car_tire_data sample_car)) < 1"
     "0 \<le> get_default (degradation_rate sample_medium) 0.05"
     "fst (optimal_temp_range sample_medium) < 460" "- 260 < snd (optimal_temp_range sample_medium)"
     "0 \<le> (case None of None \<Rightarrow> current_lap sample_car | Some n \<Rightarrow> n)"
    by (simp_all add: sample_car_def sample_tires_def sample_medium_def get_default_def)
  have ok: "0 < get_default (peak_performance_laps sample_medium) 10 \<and> life_span sample_medium \<noteq> 0"
    by (simp add: sample_medium_def get_default_def)
  note th = effective_grip_bounds[OF h(1) h(2) ti h(3) h(4) h(5) h(6) h(7) h(8) h(9) h(10) h(11)]
  from th[THEN conjunct2, rule_format, OF ok] obtain r where
    r: "get_tire_performance sample_car None = Inr r" by blast
  from th[of r, THEN conjunct1, rule_format, OF r] have
    b: "0 < effective_grip r" "effective_grip r \<le> grip_modifier sample_medium * 1.05"
    by blast+
  have "projr (get_tire_performance sample_car None) = r" "\<not> isl (get_tire_performance sample_car None)"
    unfolding r by simp_all
  with b show ?thesis by simp
qed

theorem effective_grip_counterexample:
  "60 \<le> tire_temperature cold_window_car \<and> tire_temperature cold_window_car \<le> 140
   \<and> tire_compounds (car_tire_data cold_window_car) (tire_compound cold_window_car)
       = Some \<lparr> grip_modifier = 1, optimal_temp_range = (500, 520),
                peak_performance_laps = Some 10, degradation_rate = Some (1 / 20), life_span = 40 \<rparr>
   \<and> grip_loss (cold (car_tire_data cold_window_car)) < 1
   \<and> grip_loss (overheated (car_tire_data cold_window_car)) < 1
   \<and> \<not> isl (get_tire_performance cold_window_car None)
   \<and> effective_grip (projr (get_tire_performance cold_window_car None)) = - 191 / 8000
   \<and> 60 \<le> tire_temperature improving_car \<and> tire_temperature improving_car \<le> 140
   \<and> tire_compounds (car_tire_data improving_car) (tire_compound improving_car)
       = Some \<lparr> grip_modifier = 1, optimal_temp_range = (85, 105),
          peak_performance_laps = Some 10, degradation_rate = Some (- 1 / 100), life_span = 40 \<rparr>
   \<and> grip_loss (cold (car_tire_data improving_car)) < 1
   \<and> grip_loss (overheated (car_tire_data improving_car)) < 1
   \<and> \<not> isl (get_tire_performance improving_car None)
   \<and> effective_grip (projr (get_tire_performance improving_car None)) = 6 / 5
   \<and> (6 / 5 :: real) > 1 * 1.05
   \<and> 60 \<le> tire_temperature negative_loss_car \<and> tire_temperature negative_loss_car \<le> 140
   \<and> tire_compounds (car_tire_data negative_loss_car) (tire_compound negative_loss_car)
       = Some \<lparr> grip_modifier = 1, optimal_temp_range = (100, 110),
          peak_performance_laps = Some 10, degradation_rate = Some (1 / 20), life_span = 40 \<rparr>
   \<and> grip_loss (cold (car_tire_data negative_loss_car)) < 1
   \<and> grip_loss (overheated (car_tire_data negative_loss_car)) < 1
   \<and> \<not> isl (get_tire_performance negative_loss_car None)
   \<and> effective_grip (projr (get_tire_performance negative_loss_car None)) = 573 / 400
   \<and> (573 / 400 :: real) > 1 * 1.05"
  by (simp add: cold_window_car_def improving_car_def negative_loss_car_def sample_car_def
      negative_grip_tires_def improving_tires_def negative_loss_tires_def
      get_tire_performance_def calculate_tire_degradation_def
      calculate_temperature_effect_def subscript_def get_default_def true_div_def Let_def)

theorem absent_segment_defaults_witness:
  "2 \<notin> number ` set (sectors scenario_track)
   \<and> get_sector_data scenario_track 2 = None
   \<and> get_sector_base_time scenario_track 2 = Inr 0
   \<and> calculate_sector_difficulty scenario_track 2 = Inr 1
   \<and> calculate_sector_time sample_sim half_draws 0 2 1 = Inl ValueError"
proof -
  have h: "2 \<notin> number ` set (sectors scenario_track)"
    by (simp add: scenario_track_def scenario_sector_def)
  have s: "sample_sim\<lparr> sim_circuit := scenario_track \<rparr> = sample_sim"
    by (simp add: sample_sim_def)
  from absent_segment_defaults[OF h, of sample_sim half_draws 0 1] h show ?thesis
    unfolding s by simp
qed

theorem absent_segment_counterexample:
  "2 \<notin> number ` set (sectors scenario_track)
   \<and> get_sector_data scenario_track 2 = None
   \<and> \<not> isl (get_sector_base_time scenario_track 2)
   \<and> get_sector_base_time scenario_track 2 = Inr 0"
  by (simp add: scenario_track_def scenario_sector_def get_sector_data_def get_sector_base_time_def)

theorem scenario_base_time_counterexample:
  "\<not> isl (calculate_sector_difficulty scenario_track 1)
   \<and> \<bar>projr (calculate_sector_difficulty scenario_track 1) - 0.9\<bar> = 0.2
   \<and> \<not> isl (get_sector_base_time scenario_track 1)
   \<and> \<bar>projr (get_sector_base_time scenario_track 1) - 90\<bar> = 20"
  by (simp add: scenario_track_def scenario_sector_def get_sector_data_def get_sector_base_time_def
      calculate_sector_difficulty_def type_modifier_def get_default_def true_div_def Let_def)

theorem compare_configurations_counterexample:
  "compare_configurations sample_tires sample_weather sample_sim half_draws 0 [unknown_tire_config]
     = Inl ValueError"
  by (simp add: compare_configurations_def evaluate_configuration_def unknown_tire_config_def
      Car_init_def sample_tires_def get_default_def)

end
